theory Spec2Isabelle
  imports Main "HOL-Library.Multiset"
begin

section \<open>Strings, errors and outcomes\<close>

text \<open>
  Go strings are byte sequences: \<open>string\<close> here. \<open>join\<close> is \<^verbatim>\<open>strings.Join(elems, sep)\<close>.
\<close>

fun join :: "string list \<Rightarrow> string \<Rightarrow> string" where
  "join [] sep = []"
| "join [a] sep = a"
| "join (a # b # rest) sep = a @ sep @ join (b # rest) sep"

text \<open>
  \<^verbatim>\<open>strings.ToLower\<close> on the ASCII letters (the marker looked for is ASCII), and
  \<^verbatim>\<open>strings.Contains(s, substr)\<close>.
\<close>

definition toLowerChar :: "char \<Rightarrow> char" where
  "toLowerChar c =
     (case map_of (zip ''ABCDEFGHIJKLMNOPQRSTUVWXYZ'' ''abcdefghijklmnopqrstuvwxyz'') c of
        Some l \<Rightarrow> l
      | None \<Rightarrow> c)"

definition toLower :: "string \<Rightarrow> string" where
  "toLower s = map toLowerChar s"

fun contains :: "string \<Rightarrow> string \<Rightarrow> bool" where
  "contains [] substr = (substr = [])"
| "contains (c # cs) substr = (take (length substr) (c # cs) = substr \<or> contains cs substr)"

text \<open>Decimal rendering of a length or a counter, as \<^verbatim>\<open>%v\<close> and \<^verbatim>\<open>%d\<close> print it.\<close>

fun showNat :: "nat \<Rightarrow> string" where
  "showNat n =
     (if n < 10 then [''0123456789'' ! n] else showNat (n div 10) @ [''0123456789'' ! (n mod 10)])"

declare showNat.simps [simp del]

definition showInt :: "int \<Rightarrow> string" where
  "showInt i = (if i < 0 then CHR ''-'' # showNat (nat (- i)) else showNat (nat i))"

text \<open>\<^verbatim>\<open>%v\<close> of a \<^verbatim>\<open>[]string\<close>: the elements between brackets, separated by spaces.\<close>

definition showStrings :: "string list \<Rightarrow> string" where
  "showStrings xs = ''['' @ join xs '' '' @ '']''"

text \<open>
  A Go \<^verbatim>\<open>error\<close> is its message. \<open>errorsNew\<close> is \<^verbatim>\<open>errors.New\<close>, \<open>errorsWrap\<close> is
  \<^verbatim>\<open>errors.Wrap(err, msg)\<close> of github.com/pkg/errors, whose message is \<^verbatim>\<open>msg + ": " + err.Error()\<close>.
\<close>

datatype error = Error string

fun errorMsg :: "error \<Rightarrow> string" where
  "errorMsg (Error m) = m"

definition errorsNew :: "string \<Rightarrow> error" where
  "errorsNew msg = Error msg"

definition errorsWrap :: "error \<Rightarrow> string \<Rightarrow> error" where
  "errorsWrap err msg = Error (msg @ '': '' @ errorMsg err)"

text \<open>A call either returns or panics (an index out of range, a failed type assertion, \<^verbatim>\<open>panic(...)\<close>).\<close>

datatype 'a outcome = Return 'a | Panic string

section \<open>Status keys (pkg/deploy/configuration.go, pkg/web/lastAction.go)\<close>

definition StatusKey :: "string \<Rightarrow> string \<Rightarrow> string" where
  "StatusKey instanceID operation = join [instanceID, operation] '':''"

text \<open>
  The key \<^verbatim>\<open>LastActionHandler.LastAction\<close> derives from the route parameters
  \<^verbatim>\<open>instance_id\<close>, \<^verbatim>\<open>plan_id\<close> and \<^verbatim>\<open>operation\<close> (a missing parameter reads as the empty string).
\<close>

definition lastActionKey :: "string \<Rightarrow> string \<Rightarrow> string \<Rightarrow> string" where
  "lastActionKey instance planID operation =
     join [instance, if planID = [] then ''noplan'' else planID, operation] '':''"

record Status =
  statusStatus :: string
  statusDescription :: string
  statusLog :: "string list"

text \<open>
  The error kinds \<^verbatim>\<open>handleError\<close> tells apart by type: \<^verbatim>\<open>*status.ErrNotExist\<close>,
  \<^verbatim>\<open>*json.SyntaxError\<close>, \<^verbatim>\<open>deploy.ErrInvalid\<close>, and any other error.
\<close>

datatype retrieveError =
    ErrNotExist string
  | ErrSyntax string
  | ErrInvalid string
  | ErrOther string

text \<open>What the handler writes: the encoded status, or a status code with a message.\<close>

datatype response = Encoded Status | Failure nat string

text \<open>The status code of a response: 200 where the handler only writes the body.\<close>

fun responseCode :: "response \<Rightarrow> nat" where
  "responseCode (Encoded status) = 200"
| "responseCode (Failure code msg) = code"

fun handleError :: "retrieveError \<Rightarrow> string \<Rightarrow> response" where
  "handleError (ErrNotExist m) msg = Failure 404 (msg @ m)"
| "handleError (ErrSyntax m) msg = Failure 400 (msg @ m)"
| "handleError (ErrInvalid m) msg = Failure 400 (msg @ m)"
| "handleError (ErrOther m) msg = Failure 500 (msg @ m)"

text \<open>
  \<open>LastAction\<close> takes the \<^verbatim>\<open>StatusRetriever\<close> as the function \<open>get\<close>. Encoding a status
  that was retrieved does not fail.
\<close>

definition LastAction :: "(string \<Rightarrow> retrieveError + Status) \<Rightarrow> string \<Rightarrow> string \<Rightarrow> string \<Rightarrow> response" where
  "LastAction get instance planID operation =
     (case get (lastActionKey instance planID operation) of
        Inl err \<Rightarrow> handleError err ''failed to retrieve status''
      | Inr status \<Rightarrow> Encoded status)"

text \<open>
  Modelled from the spec: the status store behind \<^verbatim>\<open>StatusPublisher\<close> and \<^verbatim>\<open>StatusRetriever\<close>
  (package \<^verbatim>\<open>pkg/status\<close>) is not among the source files. The spec describes it as a log keyed
  by the status key: \<open>Publish\<close> sets the status and description of the key's entry and appends
  the description to its ordered log; \<open>Get\<close> fails with a not-found error when the key has no
  entry (its message, which the spec leaves open, is the key). The start time, which is
  never encoded, is left out.
\<close>

type_synonym store = "string \<rightharpoonup> Status"

definition storePublish :: "string \<Rightarrow> string \<Rightarrow> string \<Rightarrow> store \<Rightarrow> store" where
  "storePublish key status description st =
     st(key \<mapsto> \<lparr>statusStatus = status, statusDescription = description,
                 statusLog = (case st key of None \<Rightarrow> [] | Some old \<Rightarrow> statusLog old) @ [description]\<rparr>)"

definition storeGet :: "store \<Rightarrow> string \<Rightarrow> retrieveError + Status" where
  "storeGet st key =
     (case st key of
        None \<Rightarrow> Inl (ErrNotExist key)
      | Some s \<Rightarrow> Inr s)"

section \<open>Cluster resources and the collaborators of the controller\<close>

text \<open>
  The parts of the cluster API's resources the code reads and writes: a deployment
  descriptor has a name, labels, and the containers of its pod template, each with an
  ordered list of environment entries.
\<close>

record EnvVar =
  envName :: string
  envValue :: string

record Container =
  containerName :: string
  containerEnv :: "EnvVar list"

record DeploymentConfig =
  dcName :: string
  labels :: "string \<rightharpoonup> string"
  containers :: "Container list"

record Service =
  svcName :: string

datatype Job = Job string

record JobCondition =
  condType :: string
  condReason :: string
  condMessage :: string

record JobStatus =
  succeeded :: int
  failed :: int
  conditions :: "JobCondition list"

text \<open>An event of a job watch: its \<^verbatim>\<open>Type\<close>, and the job's status where the object is a job.\<close>

datatype watchEvent = Added JobStatus | Modified JobStatus | Deleted JobStatus | WatchError

text \<open>
  The \<^verbatim>\<open>Client\<close> interface, as the answers it gives. A Go result \<^verbatim>\<open>(v, err)\<close> is
  \<open>Inl err\<close> when \<^verbatim>\<open>err != nil\<close> and \<open>Inr v\<close> otherwise; a nil pointer result is \<open>None\<close>.
  A watch is the list of events its result channel delivers before it is closed.
\<close>

record Client =
  GetDeploymentConfigByName :: "string \<Rightarrow> string \<Rightarrow> error + DeploymentConfig option"
  FindDeploymentConfigsByLabel :: "string \<Rightarrow> (string \<times> string) list \<Rightarrow> error + DeploymentConfig list"
  UpdateDeployConfigInNamespace :: "string \<Rightarrow> DeploymentConfig \<Rightarrow> error + DeploymentConfig"
  FindJobByName :: "string \<Rightarrow> string \<Rightarrow> error + Job option"
  FindServiceByLabel :: "string \<Rightarrow> (string \<times> string) list \<Rightarrow> error + Service list"
  CreateJobToWatch :: "Job \<Rightarrow> string \<Rightarrow> error + watchEvent list"

text \<open>
  A loaded template renders a named template with the job options
  (\<^verbatim>\<open>ExecuteTemplate(&buf, name, jobOpts)\<close>) to the buffer's content, or fails.
\<close>

type_synonym jobOpts = "string \<rightharpoonup> string"

type_synonym Template = "string \<Rightarrow> jobOpts \<Rightarrow> error + string"

text \<open>
  What a Configurer uses besides the client: \<^verbatim>\<open>TemplateLoader.Load\<close>,
  \<^verbatim>\<open>runtime.DecodeInto\<close> with the universal decoder, and the pseudo-random source:
  \<open>randSource i\<close> is the number behind the \<open>i\<close>-th call of \<^verbatim>\<open>rand.Intn\<close> in one \<open>genPass\<close>,
  and \<^verbatim>\<open>rand.Intn(n)\<close> returns it reduced into \<open>[0, n)\<close>. Go ranges over a map in an order
  it does not fix: \<open>rangeChoices ci\<close> are the choices the runtime makes when the map
  \<^verbatim>\<open>envFromOpts\<close> is ranged over for the container of index \<open>ci\<close> (see \<open>rangeOrder\<close> below).
\<close>

record Deps =
  Load :: "string \<Rightarrow> error + Template"
  DecodeInto :: "string \<Rightarrow> error + Job"
  randSource :: "nat \<Rightarrow> nat"
  rangeChoices :: "nat \<Rightarrow> nat list"

text \<open>
  The constants \<^verbatim>\<open>templateCacheRedis\<close>, \<^verbatim>\<open>templateDataMongo\<close> and \<^verbatim>\<open>templateDataMysql\<close> are
  declared outside the source files at hand: they are parameters.
\<close>

record Catalog =
  templateCacheRedis :: string
  templateDataMongo :: string
  templateDataMysql :: string

record Configuration =
  DeploymentName :: string
  NameSpace :: string
  Action :: string
  InstanceID :: string

section \<open>Observable effects\<close>

text \<open>
  Every call on a collaborator is recorded, in order: a status published (key, status,
  description), a call of the factory, of the client, of the template loader, of a
  template, of the decoder, and \<^verbatim>\<open>w.Stop()\<close> on a watch.
\<close>

datatype event =
    Publish string string string
  | CallFactory string
  | CallGetDeploymentConfigByName string string
  | CallFindDeploymentConfigsByLabel string "(string \<times> string) list"
  | CallFindServiceByLabel string "(string \<times> string) list"
  | CallFindJobByName string string
  | CallUpdateDeployConfigInNamespace string DeploymentConfig
  | CallCreateJobToWatch Job string
  | CallLoad string
  | CallExecuteTemplate string
  | CallDecodeInto string
  | CallStop

text \<open>
  One call of a Configurer: what it returned (or that it panicked), the shared descriptor
  \<^verbatim>\<open>*deployment\<close> as the call left it (the Configurers write through the pointer), the
  events of the call itself, and the events of the goroutine it started, which run
  beside the caller. The wait-group operations and the logger are not recorded.
\<close>

record Run =
  result :: "(DeploymentConfig option \<times> error option) outcome"
  target :: DeploymentConfig
  trace :: "event list"
  spawned :: "event list"

definition returns :: "event list \<Rightarrow> DeploymentConfig option \<times> error option \<Rightarrow> DeploymentConfig \<Rightarrow> Run" where
  "returns evs ret d = \<lparr>result = Return ret, target = d, trace = evs, spawned = []\<rparr>"

definition panics :: "string \<Rightarrow> DeploymentConfig \<Rightarrow> Run" where
  "panics msg d = \<lparr>result = Panic msg, target = d, trace = [], spawned = []\<rparr>"

definition emit :: "event list \<Rightarrow> Run \<Rightarrow> Run" where
  "emit evs r = r\<lparr>trace := evs @ trace r\<rparr>"

definition configInProgress :: string where "configInProgress = ''in progress''"
definition configError :: string where "configError = ''failed''"
definition configComplete :: string where "configComplete = ''succeeded''"

text \<open>\<^verbatim>\<open>statusUpdate(description, status)\<close> publishes under the Configurer's status key.\<close>

definition statusUpdate :: "string \<Rightarrow> string \<Rightarrow> string \<Rightarrow> event" where
  "statusUpdate statusKey description status = Publish statusKey status description"

section \<open>Environment entries\<close>

text \<open>The index of the first element a loop with \<^verbatim>\<open>break\<close> stops at.\<close>

fun findIndex :: "('a \<Rightarrow> bool) \<Rightarrow> 'a list \<Rightarrow> nat option" where
  "findIndex p [] = None"
| "findIndex p (x # xs) =
     (if p x then Some 0 else (case findIndex p xs of None \<Rightarrow> None | Some i \<Rightarrow> Some (Suc i)))"

text \<open>
  The inner loops of the database Configurers: look for the entry named \<open>n\<close> in \<open>env\<close>, the
  slice read before the loop; write the value at its index of the container's current
  list \<open>cur\<close>, or append a new entry when there is none.
\<close>

definition setOrAppendEnv :: "string \<Rightarrow> string \<Rightarrow> EnvVar list \<Rightarrow> EnvVar list \<Rightarrow> EnvVar list" where
  "setOrAppendEnv n v env cur =
     (case findIndex (\<lambda>e. envName e = n) env of
        Some ei \<Rightarrow> cur[ei := (cur ! ei)\<lparr>envValue := v\<rparr>]
      | None \<Rightarrow> cur @ [\<lparr>envName = n, envValue = v\<rparr>])"

text \<open>
  The order in which a \<^verbatim>\<open>range\<close> over a map visits its entries \<open>xs\<close>: each choice picks
  which of the entries not yet visited comes next; the entries left when the choices
  run out follow as they stand. Every order of the entries is the order of some choices,
  and every list of choices gives an order of the entries.
\<close>

fun rangeOrder :: "nat list \<Rightarrow> 'a list \<Rightarrow> 'a list" where
  "rangeOrder [] xs = xs"
| "rangeOrder (k # ks) [] = []"
| "rangeOrder (k # ks) (x # xs) =
     ((x # xs) ! (k mod Suc (length xs)))
     # rangeOrder ks (take (k mod Suc (length xs)) (x # xs) @ drop (Suc (k mod Suc (length xs))) (x # xs))"

definition letterBytes :: string where
  "letterBytes = ''abcdefghijklmnopqrstuvwxyzABCDEFGHIJKLMNOPQRSTUVWXYZ0123456789''"

definition genPass :: "(nat \<Rightarrow> nat) \<Rightarrow> nat \<Rightarrow> string" where
  "genPass rnd len = map (\<lambda>i. letterBytes ! (rnd i mod length letterBytes)) [0..<len]"

section \<open>The cache Configurer\<close>

definition cacheSetEnv :: "EnvVar list \<Rightarrow> EnvVar list" where
  "cacheSetEnv env =
     (case findIndex (\<lambda>e. envName e = ''FH_REDIS_HOST'' \<and> envValue e \<noteq> ''data-cache'') env of
        Some ei \<Rightarrow> env[ei := (env ! ei)\<lparr>envValue := ''data-cache''\<rparr>]
      | None \<Rightarrow> env)"

definition cacheConfigure :: "string \<Rightarrow> Client \<Rightarrow> DeploymentConfig \<Rightarrow> string \<Rightarrow> Run" where
  "cacheConfigure statusKey client deployment namespace =
     emit [Publish statusKey configInProgress ''starting configuration of cache '']
       (if labels deployment ''rhmap/name'' = Some ''cache''
        then returns [Publish statusKey configInProgress ''no need to configure own DeploymentConfig '']
               (Some deployment, None) deployment
        else
          (let deployment' = deployment\<lparr>containers :=
                 map (\<lambda>c. c\<lparr>containerEnv := cacheSetEnv (containerEnv c)\<rparr>) (containers deployment)\<rparr>
           in returns [Publish statusKey configInProgress
                         (''updating containers env for deployment '' @ dcName deployment)]
                (Some deployment', None) deployment'))"

section \<open>The document-database Configurer\<close>

text \<open>
  \<^verbatim>\<open>constructMongoURL\<close> takes the replica-set name as it stands in the job options: an
  \<^verbatim>\<open>interface{}\<close>, nil (\<open>None\<close>) when the option was never set. The comparison
  \<^verbatim>\<open>"" != replicaSet\<close> holds for nil, and the type assertion \<^verbatim>\<open>replicaSet.(string)\<close> that
  follows panics on it.
\<close>

definition constructMongoURL :: "string \<Rightarrow> string \<Rightarrow> string \<Rightarrow> string \<Rightarrow> string option \<Rightarrow> string outcome" where
  "constructMongoURL host user pass db replicaSet =
     (let url = ''mongodb://'' @ user @ '':'' @ pass @ ''@'' @ host @ '':27017/'' @ db
      in if replicaSet \<noteq> Some []
         then (case replicaSet of
                 None \<Rightarrow> Panic ''interface conversion: interface {} is nil, not string''
               | Some r \<Rightarrow> Return (url @ ''?replicaSet='' @ r))
         else Return url)"

text \<open>The scan of the data descriptor's environment: the admin password and the replica-set name.\<close>

fun mongoScanEnv :: "EnvVar list \<Rightarrow> bool \<times> jobOpts \<Rightarrow> bool \<times> jobOpts" where
  "mongoScanEnv [] acc = acc"
| "mongoScanEnv (e # es) (foundAdminPassword, opts) =
     (let (found1, opts1) =
            (if envName e = ''MONGODB_ADMIN_PASSWORD''
             then (True, opts(''admin-pass'' \<mapsto> envValue e))
             else (foundAdminPassword, opts));
          opts2 = (if envName e = ''MONGODB_REPLICA_NAME''
                   then opts1(''replicaSet'' \<mapsto> envValue e) else opts1)
      in mongoScanEnv es (found1, opts2))"

text \<open>The goroutine watching the job: the loop over the conditions, one event, the whole channel.\<close>

fun mongoConditions :: "string \<Rightarrow> JobCondition list \<Rightarrow> event list" where
  "mongoConditions statusKey [] = []"
| "mongoConditions statusKey (condition # rest) =
     (if condReason condition = ''DeadlineExceeded'' \<and> condType condition = ''Failed''
      then [statusUpdate statusKey
              (''configuration job  timed out and failed to configure database  '' @ condMessage condition)
              configError]
      else if condType condition = ''Complete''
      then [statusUpdate statusKey ''configuration job succeeded '' configInProgress]
      else [])
     @ mongoConditions statusKey rest"

definition jobStatusLine :: "JobStatus \<Rightarrow> string" where
  "jobStatusLine j = ''job status succeeded '' @ showInt (succeeded j) @ '' failed '' @ showInt (failed j)"

fun mongoWatchEvent :: "string \<Rightarrow> watchEvent \<Rightarrow> event list" where
  "mongoWatchEvent statusKey WatchError =
     [statusUpdate statusKey '' data-mongo configuration job error '' configError, CallStop]"
| "mongoWatchEvent statusKey (Deleted j) = []"
| "mongoWatchEvent statusKey (Added j) =
     (if succeeded j \<ge> 1 then CallStop # mongoConditions statusKey (conditions j) else [])
     @ [statusUpdate statusKey (jobStatusLine j) configInProgress]"
| "mongoWatchEvent statusKey (Modified j) =
     (if succeeded j \<ge> 1 then CallStop # mongoConditions statusKey (conditions j) else [])
     @ [statusUpdate statusKey (jobStatusLine j) configInProgress]"

definition mongoWatch :: "string \<Rightarrow> watchEvent list \<Rightarrow> event list" where
  "mongoWatch statusKey w = concat (map (mongoWatchEvent statusKey) w)"

text \<open>
  \<^verbatim>\<open>DataMongoConfigure.Configure\<close>, from the template load to the end: load, render, decode,
  submit, and start the watcher. \<open>deployment\<close> is the shared descriptor with the connection
  URL already written.
\<close>

definition mongoSubmitJob :: "Deps \<Rightarrow> string \<Rightarrow> Client \<Rightarrow> DeploymentConfig \<Rightarrow> string \<Rightarrow> jobOpts \<Rightarrow> Run" where
  "mongoSubmitJob deps statusKey client deployment namespace opts =
     emit [CallLoad ''data-mongo-job'']
       (case Load deps ''data-mongo-job'' of
          Inl err \<Rightarrow>
            returns [statusUpdate statusKey (''failed to load job template '' @ errorMsg err) configError]
              (None, Some (errorsWrap err ''failed to load template data-mongo-job '')) deployment
        | Inr tpl \<Rightarrow>
            emit [CallExecuteTemplate ''data-mongo-job'']
              (case tpl ''data-mongo-job'' opts of
                 Inl err \<Rightarrow>
                   returns [statusUpdate statusKey
                              (errorMsg (errorsWrap err ''failed to execute template: '')) configError]
                     (None, Some (errorsWrap err ''failed to execute template: '')) deployment
               | Inr buf \<Rightarrow>
                   emit [CallDecodeInto buf]
                     (case DecodeInto deps buf of
                        Inl err \<Rightarrow>
                          returns [statusUpdate statusKey
                                     (errorMsg (errorsWrap err ''failed to Decode job'')) ''error'']
                            (None, Some (errorsWrap err ''failed to Decode job'')) deployment
                      | Inr j \<Rightarrow>
                          emit [CallCreateJobToWatch j namespace]
                            (case CreateJobToWatch client j namespace of
                               Inl err \<Rightarrow>
                                 returns [statusUpdate statusKey
                                            (''failed to CreateJobToWatch '' @ errorMsg err) configError]
                                   (None, Some err) deployment
                             | Inr w \<Rightarrow>
                                 \<lparr>result = Return (Some deployment, None), target = deployment,
                                  trace = [], spawned = mongoWatch statusKey w\<rparr>))))"

text \<open>
  From the credentials scan to the write of \<^verbatim>\<open>FH_MONGODB_CONN_URL\<close> on every container.
  \<^verbatim>\<open>dataDc[0].Spec.Template.Spec.Containers[0]\<close> panics when the data descriptor has no container.
\<close>

definition mongoBuildJob :: "Deps \<Rightarrow> string \<Rightarrow> Client \<Rightarrow> DeploymentConfig \<Rightarrow> string \<Rightarrow> DeploymentConfig \<Rightarrow> Service \<Rightarrow> Run" where
  "mongoBuildJob deps statusKey client deployment namespace dataDc0 dataService0 =
     (case containers dataDc0 of
        [] \<Rightarrow> panics ''index out of range'' deployment
      | c0 # _ \<Rightarrow>
          (case mongoScanEnv (containerEnv c0) (False, Map.empty) of
             (False, _) \<Rightarrow>
               returns [statusUpdate statusKey
                          ''expected to find an admin password but there was non present'' configError]
                 (None, Some (errorsNew ''expected to find an admin password but there was non present''))
                 deployment
           | (True, opts0) \<Rightarrow>
               (let database = (case labels deployment ''rhmap/guid'' of
                                  Some v \<Rightarrow> v | None \<Rightarrow> dcName deployment);
                    pass = genPass (randSource deps) 16;
                    opts = opts0(''dbhost'' \<mapsto> svcName dataService0, ''admin-user'' \<mapsto> ''admin'',
                                 ''database'' \<mapsto> database, ''name'' \<mapsto> dcName deployment,
                                 ''database-pass'' \<mapsto> pass, ''database-user'' \<mapsto> database)
                in (case constructMongoURL (svcName dataService0) database pass database
                          (opts ''replicaSet'') of
                      Panic msg \<Rightarrow> panics msg deployment
                    | Return mongoURL \<Rightarrow>
                        mongoSubmitJob deps statusKey client
                          (deployment\<lparr>containers :=
                             map (\<lambda>c. c\<lparr>containerEnv :=
                                    setOrAppendEnv ''FH_MONGODB_CONN_URL'' mongoURL
                                      (containerEnv c) (containerEnv c)\<rparr>)
                               (containers deployment)\<rparr>)
                          namespace opts))))"

text \<open>Locating the data descriptor and its service.\<close>

definition mongoLocate :: "Deps \<Rightarrow> string \<Rightarrow> Client \<Rightarrow> DeploymentConfig \<Rightarrow> string \<Rightarrow> Run" where
  "mongoLocate deps statusKey client deployment namespace =
     emit [CallFindDeploymentConfigsByLabel namespace [(''rhmap/name'', ''data-mongo'')]]
       (case FindDeploymentConfigsByLabel client namespace [(''rhmap/name'', ''data-mongo'')] of
          Inl err \<Rightarrow>
            returns [statusUpdate statusKey
                       (''failed to find data DeploymentConfig. Cannot continue '' @ errorMsg err) configError]
              (None, Some err) deployment
        | Inr [] \<Rightarrow>
            returns [statusUpdate statusKey ''no data DeploymentConfig exists. Cannot continue'' configError]
              (None, Some (errorsNew ''no data DeploymentConfig exists. Cannot continue'')) deployment
        | Inr (dataDc0 # _) \<Rightarrow>
            emit [CallFindServiceByLabel namespace [(''rhmap/name'', ''data-mongo'')]]
              (case FindServiceByLabel client namespace [(''rhmap/name'', ''data-mongo'')] of
                 Inl err \<Rightarrow>
                   returns [statusUpdate statusKey
                              (''failed to find data service cannot continue '' @ errorMsg err) configError]
                     (None, Some err) deployment
               | Inr [] \<Rightarrow>
                   returns [statusUpdate statusKey ''no service for data found. Cannot continue'' configError]
                     (None, Some (errorsNew ''no service for data found. Cannot continue'')) deployment
               | Inr (dataService0 # _) \<Rightarrow>
                   mongoBuildJob deps statusKey client deployment namespace dataDc0 dataService0))"

text \<open>\<^verbatim>\<open>DataMongoConfigure.Configure\<close>: the own-descriptor check and the existing-job guard first.\<close>

definition mongoConfigure :: "Deps \<Rightarrow> string \<Rightarrow> Client \<Rightarrow> DeploymentConfig \<Rightarrow> string \<Rightarrow> Run" where
  "mongoConfigure deps statusKey client deployment namespace =
     emit [statusUpdate statusKey
             (''starting configuration of data-mongo service for '' @ dcName deployment) configInProgress]
       (if labels deployment ''rhmap/name'' = Some ''data-mongo''
        then returns [statusUpdate statusKey ''no need to configure data-mongo DeploymentConfig '' configInProgress]
               (Some deployment, None) deployment
        else
          emit [CallFindJobByName namespace (dcName deployment @ ''-dataconfig-job'')]
            (case FindJobByName client namespace (dcName deployment @ ''-dataconfig-job'') of
               Inl err \<Rightarrow>
                 returns [statusUpdate statusKey (''error finding existing Job '' @ errorMsg err) ''error'']
                   (Some deployment, None) deployment
             | Inr (Some existingJob) \<Rightarrow>
                 returns [statusUpdate statusKey
                            (''configuration job '' @ dcName deployment
                               @ ''-dataconfig-job already exists. No need to run again '') ''complete'']
                   (Some deployment, None) deployment
             | Inr None \<Rightarrow> mongoLocate deps statusKey client deployment namespace))"

section \<open>The relational-database Configurer\<close>

text \<open>
  The goroutine of \<^verbatim>\<open>DataMysqlConfigure.Configure\<close>: it submits the job itself, then
  watches it.
\<close>

fun mysqlConditions :: "string \<Rightarrow> JobCondition list \<Rightarrow> event list" where
  "mysqlConditions statusKey [] = []"
| "mysqlConditions statusKey (condition # rest) =
     (if condReason condition = ''DeadlineExceeded''
      then [statusUpdate statusKey
              (''configuration job failed to configure database in time '' @ condMessage condition)
              configError,
            CallStop]
      else [])
     @ mysqlConditions statusKey rest"

fun mysqlWatchEvent :: "string \<Rightarrow> watchEvent \<Rightarrow> event list" where
  "mysqlWatchEvent statusKey WatchError =
     [statusUpdate statusKey '' data configuration job error '' configError, CallStop]"
| "mysqlWatchEvent statusKey (Deleted j) = []"
| "mysqlWatchEvent statusKey (Added j) =
     (if succeeded j \<ge> 1
      then [statusUpdate statusKey ''configuration job succeeded '' configInProgress, CallStop] else [])
     @ [statusUpdate statusKey (jobStatusLine j) configInProgress]
     @ mysqlConditions statusKey (conditions j)"
| "mysqlWatchEvent statusKey (Modified j) =
     (if succeeded j \<ge> 1
      then [statusUpdate statusKey ''configuration job succeeded '' configInProgress, CallStop] else [])
     @ [statusUpdate statusKey (jobStatusLine j) configInProgress]
     @ mysqlConditions statusKey (conditions j)"

definition mysqlJob :: "string \<Rightarrow> Client \<Rightarrow> Job \<Rightarrow> string \<Rightarrow> event list" where
  "mysqlJob statusKey client j namespace =
     CallCreateJobToWatch j namespace #
       (case CreateJobToWatch client j namespace of
          Inl err \<Rightarrow> [statusUpdate statusKey (''failed to CreateJobToWatch '' @ errorMsg err) configError]
        | Inr w \<Rightarrow> concat (map (mysqlWatchEvent statusKey) w))"

text \<open>From the template load to the end: load, render, decode, start the goroutine, return.\<close>

definition mysqlSubmitJob :: "Deps \<Rightarrow> string \<Rightarrow> Client \<Rightarrow> DeploymentConfig \<Rightarrow> string \<Rightarrow> jobOpts \<Rightarrow> Run" where
  "mysqlSubmitJob deps statusKey client deployment namespace opts =
     emit [CallLoad ''data-mysql-job'']
       (case Load deps ''data-mysql-job'' of
          Inl err \<Rightarrow>
            returns [statusUpdate statusKey (''failed to load job template '' @ errorMsg err) configError]
              (None, Some (errorsWrap err (''failed to load template '' @ ''data-mysql-job''))) deployment
        | Inr tpl \<Rightarrow>
            emit [CallExecuteTemplate ''data-mysql-job'']
              (case tpl ''data-mysql-job'' opts of
                 Inl err \<Rightarrow>
                   returns [statusUpdate statusKey
                              (errorMsg (errorsWrap err ''failed to execute template: '')) configError]
                     (None, Some (errorsWrap err ''failed to execute template: '')) deployment
               | Inr buf \<Rightarrow>
                   emit [CallDecodeInto buf]
                     (case DecodeInto deps buf of
                        Inl err \<Rightarrow>
                          returns [statusUpdate statusKey
                                     (errorMsg (errorsWrap err ''failed to Decode job'')) ''error'']
                            (None, Some (errorsWrap err ''failed to Decode job'')) deployment
                      | Inr j \<Rightarrow>
                          \<lparr>result = Return (Some deployment, None), target = deployment,
                           trace = [], spawned = mysqlJob statusKey client j namespace\<rparr>)))"

text \<open>
  The three entries written on a container, in the order in which the map
  \<^verbatim>\<open>envFromOpts\<close> is ranged over, which the choices decide. Each is looked for in \<open>env\<close>, the
  container's list as it was read before the loop.
\<close>

definition mysqlSetContainer :: "nat list \<Rightarrow> string \<Rightarrow> string \<Rightarrow> string \<Rightarrow> Container \<Rightarrow> Container" where
  "mysqlSetContainer choices user password database c =
     c\<lparr>containerEnv :=
         foldl (\<lambda>cur (n, v). setOrAppendEnv n v (containerEnv c) cur) (containerEnv c)
           (rangeOrder choices
              [(''MYSQL_USER'', user), (''MYSQL_PASSWORD'', password), (''MYSQL_DATABASE'', database)])\<rparr>"

text \<open>From the credentials scan to the write of the three entries on every container.\<close>

definition mysqlBuildJob :: "Deps \<Rightarrow> string \<Rightarrow> Client \<Rightarrow> DeploymentConfig \<Rightarrow> string \<Rightarrow> DeploymentConfig \<Rightarrow> Service \<Rightarrow> Run" where
  "mysqlBuildJob deps statusKey client deployment namespace dataDc0 dataService0 =
     (case containers dataDc0 of
        [] \<Rightarrow> panics ''index out of range'' deployment
      | c0 # _ \<Rightarrow>
          (case find (\<lambda>e. envName e = ''MYSQL_ROOT_PASSWORD'') (containerEnv c0) of
             None \<Rightarrow>
               returns [statusUpdate statusKey
                          ''expected to find an env var: MYSQL_ROOT_PASSWORD but it was not present''
                          configError]
                 (None, Some (errorsNew
                    ''expected to find an env var: MYSQL_ROOT_PASSWORD but it was not present''))
                 deployment
           | Some e \<Rightarrow>
               (case labels deployment ''rhmap/guid'' of
                  None \<Rightarrow>
                    returns []
                      (None, Some (errorsNew (''Could not find rhmap/guid for deployment: '' @ dcName deployment)))
                      deployment
                | Some v \<Rightarrow>
                    (let userDatabase = (if v = [] then dcName deployment else v);
                         userPassword = genPass (randSource deps) 16;
                         userUsername = (if length userDatabase > 16 then take 16 userDatabase
                                         else userDatabase);
                         opts = [''admin-password'' \<mapsto> envValue e, ''name'' \<mapsto> dcName deployment,
                                 ''dbhost'' \<mapsto> svcName dataService0, ''admin-username'' \<mapsto> ''root'',
                                 ''admin-database'' \<mapsto> ''mysql'', ''user-database'' \<mapsto> userDatabase,
                                 ''user-password'' \<mapsto> userPassword, ''user-username'' \<mapsto> userUsername]
                     in mysqlSubmitJob deps statusKey client
                          (deployment\<lparr>containers :=
                             map (\<lambda>(ci, c). mysqlSetContainer (rangeChoices deps ci)
                                               userUsername userPassword userDatabase c)
                               (enumerate 0 (containers deployment))\<rparr>)
                          namespace opts))))"

text \<open>
  \<^verbatim>\<open>DataMysqlConfigure.Configure\<close>: the own-descriptor check, the data descriptor, the
  existing-job guard, the data service.
\<close>

definition mysqlConfigure :: "Catalog \<Rightarrow> Deps \<Rightarrow> string \<Rightarrow> Client \<Rightarrow> DeploymentConfig \<Rightarrow> string \<Rightarrow> Run" where
  "mysqlConfigure cat deps statusKey client deployment namespace =
     emit [statusUpdate statusKey
             (''starting configuration of data service for '' @ dcName deployment) configInProgress]
       (if labels deployment ''rhmap/name'' = Some (templateDataMysql cat)
        then returns [statusUpdate statusKey ''no need to configure data-mysql DeploymentConfig '' configInProgress]
               (Some deployment, None) deployment
        else
          emit [CallFindDeploymentConfigsByLabel namespace [(''rhmap/name'', templateDataMysql cat)]]
            (case FindDeploymentConfigsByLabel client namespace [(''rhmap/name'', templateDataMysql cat)] of
               Inl err \<Rightarrow>
                 returns [statusUpdate statusKey
                            (''failed to find data DeploymentConfig. Cannot continue '' @ errorMsg err)
                            configError]
                   (None, Some err) deployment
             | Inr [] \<Rightarrow>
                 returns [statusUpdate statusKey ''no data DeploymentConfig exists. Cannot continue'' configError]
                   (None, Some (errorsNew ''no data DeploymentConfig exists. Cannot continue'')) deployment
             | Inr (dataDc0 # _) \<Rightarrow>
                 emit [CallFindJobByName namespace (dcName deployment @ ''-dataconfig-job'')]
                   (case FindJobByName client namespace (dcName deployment @ ''-dataconfig-job'') of
                      Inl err \<Rightarrow>
                        returns [statusUpdate statusKey
                                   (''error finding existing Job '' @ errorMsg err) ''error'']
                          (Some deployment, None) deployment
                    | Inr (Some existingJob) \<Rightarrow>
                        returns [statusUpdate statusKey
                                   (''configuration job '' @ dcName deployment
                                      @ ''-dataconfig-job already exists. No need to run again '')
                                   ''complete'']
                          (Some deployment, None) deployment
                    | Inr None \<Rightarrow>
                        emit [CallFindServiceByLabel namespace [(''rhmap/name'', templateDataMysql cat)]]
                          (case FindServiceByLabel client namespace
                                  [(''rhmap/name'', templateDataMysql cat)] of
                             Inl err \<Rightarrow>
                               returns [statusUpdate statusKey
                                          (''failed to find data service cannot continue '' @ errorMsg err)
                                          configError]
                                 (None, Some err) deployment
                           | Inr [] \<Rightarrow>
                               returns [statusUpdate statusKey
                                          ''no service for data found. Cannot continue'' configError]
                                 (None, Some (errorsNew ''no service for data found. Cannot continue''))
                                 deployment
                           | Inr (dataService0 # _) \<Rightarrow>
                               mysqlBuildJob deps statusKey client deployment namespace
                                 dataDc0 dataService0))))"

section \<open>The factory and the controller\<close>

text \<open>A Configurer built by the factory: its kind and its status key.\<close>

datatype Configurer =
    CacheRedisConfigure string
  | DataMongoConfigure string
  | DataMysqlConfigure string

definition Factory :: "Catalog \<Rightarrow> string \<Rightarrow> Configuration \<Rightarrow> Configurer outcome" where
  "Factory cat service config =
     (if service = templateCacheRedis cat
      then Return (CacheRedisConfigure (StatusKey (InstanceID config) (Action config)))
      else if service = templateDataMongo cat
      then Return (DataMongoConfigure (StatusKey (InstanceID config) (Action config)))
      else if service = templateDataMysql cat
      then Return (DataMysqlConfigure (StatusKey (InstanceID config) (Action config)))
      else Panic ''unknown service type cannot configure'')"

text \<open>The method \<^verbatim>\<open>Configure\<close> of the interface \<^verbatim>\<open>Configurer\<close>.\<close>

fun configurerConfigure :: "Catalog \<Rightarrow> Deps \<Rightarrow> Configurer \<Rightarrow> Client \<Rightarrow> DeploymentConfig \<Rightarrow> string \<Rightarrow> Run" where
  "configurerConfigure cat deps (CacheRedisConfigure statusKey) client deployment namespace =
     cacheConfigure statusKey client deployment namespace"
| "configurerConfigure cat deps (DataMongoConfigure statusKey) client deployment namespace =
     mongoConfigure deps statusKey client deployment namespace"
| "configurerConfigure cat deps (DataMysqlConfigure statusKey) client deployment namespace =
     mysqlConfigure cat deps statusKey client deployment namespace"

text \<open>
  The variables of the loop over the services in
  \<^verbatim>\<open>EnvironmentServiceConfigController.Configure\<close>: the shared descriptor, the map
  \<^verbatim>\<open>configured\<close>, the list \<^verbatim>\<open>errs\<close>, and the events so far.
\<close>

record LoopState =
  lsDeployment :: DeploymentConfig
  lsConfigured :: "string \<rightharpoonup> bool"
  lsErrs :: "string list"
  lsTrace :: "event list"
  lsSpawned :: "event list"

text \<open>
  The loop. \<open>err\<close> is the variable \<^verbatim>\<open>err\<close> of \<open>Configure\<close>, which the loop reads and never
  assigns: what \<^verbatim>\<open>c.Configure(client, deployment, namespace)\<close> returns is dropped. The second
  component of the result is the message of a panic that ended the loop.
\<close>

fun configureServices :: "Catalog \<Rightarrow> Deps \<Rightarrow> Client \<Rightarrow> Configuration \<Rightarrow> error option \<Rightarrow> DeploymentConfig list \<Rightarrow> LoopState \<Rightarrow> LoopState \<times> string option" where
  "configureServices cat deps client config err [] st = (st, None)"
| "configureServices cat deps client config err (s # services) st =
     (let serviceName = (case labels s ''rhmap/name'' of None \<Rightarrow> [] | Some v \<Rightarrow> v)
      in if lsConfigured st serviceName \<noteq> None
         then configureServices cat deps client config err services st
         else
           (let st1 = st\<lparr>lsConfigured := (lsConfigured st)(serviceName \<mapsto> True),
                         lsTrace := lsTrace st @
                           [Publish (StatusKey (InstanceID config) (Action config)) configInProgress
                              (''configuring '' @ serviceName),
                            CallFactory serviceName]\<rparr>
            in (case Factory cat serviceName config of
                  Panic msg \<Rightarrow> (st1, Some msg)
                | Return c \<Rightarrow>
                    (let r = configurerConfigure cat deps c client (lsDeployment st1) (NameSpace config);
                         st2 = st1\<lparr>lsDeployment := target r,
                                   lsTrace := lsTrace st1 @ trace r,
                                   lsSpawned := lsSpawned st1 @ spawned r\<rparr>
                     in (case result r of
                           Panic msg \<Rightarrow> (st2, Some msg)
                         | Return _ \<Rightarrow>
                             configureServices cat deps client config err services
                               (st2\<lparr>lsErrs := (case err of
                                                  None \<Rightarrow> lsErrs st2
                                                | Some e \<Rightarrow> lsErrs st2 @ [errorMsg e])\<rparr>))))))"

text \<open>
  One call of the controller: the error it returned (or that it panicked), its events,
  and the events of the goroutines the Configurers started.
\<close>

record ControllerRun =
  cResult :: "error option outcome"
  cTrace :: "event list"
  cSpawned :: "event list"

definition Configure :: "Catalog \<Rightarrow> Deps \<Rightarrow> Client \<Rightarrow> Configuration \<Rightarrow> ControllerRun" where
  "Configure cat deps client config =
     (let deploymentName = DeploymentName config;
          namespace = NameSpace config;
          statusKey = StatusKey (InstanceID config) (Action config)
      in (case GetDeploymentConfigByName client namespace deploymentName of
            Inl err \<Rightarrow>
              \<lparr>cResult = Return (Some (errorsWrap err
                   (''unexpected error retrieving DeployConfig for deployment '' @ deploymentName))),
               cTrace = [CallGetDeploymentConfigByName namespace deploymentName], cSpawned = []\<rparr>
          | Inr None \<Rightarrow>
              \<lparr>cResult = Return (Some (errorsNew (''could not find DeploymentConfig for '' @ deploymentName))),
               cTrace = [CallGetDeploymentConfigByName namespace deploymentName], cSpawned = []\<rparr>
          | Inr (Some deployment) \<Rightarrow>
              (case FindDeploymentConfigsByLabel client namespace [(''rhmap/type'', ''environmentService'')] of
                 Inl err \<Rightarrow>
                   \<lparr>cResult = Return (Some err),
                    cTrace = [CallGetDeploymentConfigByName namespace deploymentName,
                              CallFindDeploymentConfigsByLabel namespace [(''rhmap/type'', ''environmentService'')],
                              Publish statusKey ''error''
                                (''failed to retrieve environment Service dcs during configuration of  ''
                                   @ dcName deployment @ '' '' @ errorMsg err)],
                    cSpawned = []\<rparr>
               | Inr services \<Rightarrow>
                   (case configureServices cat deps client config None services
                           \<lparr>lsDeployment = deployment, lsConfigured = Map.empty, lsErrs = [],
                            lsTrace = [CallGetDeploymentConfigByName namespace deploymentName,
                                       CallFindDeploymentConfigsByLabel namespace
                                         [(''rhmap/type'', ''environmentService'')],
                                       Publish statusKey configInProgress
                                         (''found '' @ showNat (length services) @ '' services'')],
                            lsSpawned = []\<rparr> of
                      (st, Some msg) \<Rightarrow>
                        \<lparr>cResult = Panic msg, cTrace = lsTrace st, cSpawned = lsSpawned st\<rparr>
                    | (st, None) \<Rightarrow>
                        (case UpdateDeployConfigInNamespace client namespace (lsDeployment st) of
                           Inl err \<Rightarrow>
                             \<lparr>cResult = Return (Some (errorsWrap err
                                  ''failed to update deployment after configuring it '')),
                              cTrace = lsTrace st @
                                [CallUpdateDeployConfigInNamespace namespace (lsDeployment st),
                                 Publish statusKey configError
                                   ''failed to update DeployConfig after configuring it''],
                              cSpawned = lsSpawned st\<rparr>
                         | Inr _ \<Rightarrow>
                             (if length (lsErrs st) > 0
                              then \<lparr>cResult = Return (Some (errorsNew
                                        ('' some configuration jobs failed '' @ showStrings (lsErrs st)))),
                                    cTrace = lsTrace st @
                                      [CallUpdateDeployConfigInNamespace namespace (lsDeployment st),
                                       Publish statusKey configError
                                         ('' some configuration jobs failed '' @ showStrings (lsErrs st))],
                                    cSpawned = lsSpawned st\<rparr>
                              else \<lparr>cResult = Return None,
                                    cTrace = lsTrace st @
                                      [CallUpdateDeployConfigInNamespace namespace (lsDeployment st),
                                       Publish statusKey configComplete ''service configuration complete''],
                                    cSpawned = lsSpawned st\<rparr>))))))"

section \<open>Waiting for dependencies\<close>

record Dispatched =
  depDeploymentName :: string
  WatchURL :: string

text \<open>
  What a polling goroutine meets: \<open>httpGet d i\<close> is the outcome of the \<open>i\<close>-th request to the
  watch URL of \<open>d\<close>, a transport error (also a request that cannot be built) or the
  response body; \<open>second d 0\<close> is \<^verbatim>\<open>time.Now().UTC().Second()\<close> as read before the loop
  and \<open>second d (i + 1)\<close> as read at the end of the \<open>i\<close>-th round.
\<close>

record Poller =
  httpGet :: "Dispatched \<Rightarrow> nat \<Rightarrow> error + string"
  second :: "Dispatched \<Rightarrow> nat \<Rightarrow> int"

text \<open>
  The loop of one goroutine, from round \<open>i\<close>, with \<^verbatim>\<open>timeout := 300\<close>. It returns on a body
  that holds the marker and panics on a transport error; after the timeout test it goes
  round again. \<open>None\<close> is a loop that never ends. \<open>depErrors\<close> is the slice the goroutines
  append to.
\<close>

partial_function (option) pollDependency ::
  "Poller \<Rightarrow> Dispatched \<Rightarrow> int \<Rightarrow> nat \<Rightarrow> string list \<Rightarrow> string list outcome option" where
  "pollDependency p dependency start i depErrors =
     (case httpGet p dependency i of
        Inl err \<Rightarrow> Some (Panic (errorMsg err))
      | Inr body \<Rightarrow>
          if contains (toLower body) ''success''
          then Some (Return depErrors)
          else pollDependency p dependency start (Suc i)
                 (if second p dependency (Suc i) - start > 300
                  then depErrors @ [''Failed to deploy dependency: '' @ depDeploymentName dependency]
                  else depErrors))"

text \<open>
  \<^verbatim>\<open>dependencyGroup.Wait()\<close> returns when every goroutine has returned. The goroutines are
  taken one after the other, in the order of the list: each works on the slice the
  ones before it left. A goroutine that never returns keeps the wait from returning.
\<close>

fun waitGroup :: "Poller \<Rightarrow> Dispatched list \<Rightarrow> string list \<Rightarrow> string list outcome option" where
  "waitGroup p [] depErrors = Some (Return depErrors)"
| "waitGroup p (dependency # rest) depErrors =
     (case pollDependency p dependency (second p dependency 0) 0 depErrors of
        None \<Rightarrow> None
      | Some (Panic msg) \<Rightarrow> Some (Panic msg)
      | Some (Return depErrors') \<Rightarrow> waitGroup p rest depErrors')"

definition waitForDependencies :: "Poller \<Rightarrow> Dispatched list \<Rightarrow> error option outcome option" where
  "waitForDependencies p dependencies =
     (case waitGroup p dependencies [] of
        None \<Rightarrow> None
      | Some (Panic msg) \<Rightarrow> Some (Panic msg)
      | Some (Return depErrors) \<Rightarrow>
          Some (Return (if length depErrors > 0
                        then Some (errorsNew (join depErrors [CHR 0x0A]))
                        else None)))"

section \<open>Reading a run\<close>

text \<open>
  The events of the job path of a database Configurer: loading a template, rendering
  it, decoding the job, submitting the job.
\<close>

fun isJobWork :: "event \<Rightarrow> bool" where
  "isJobWork (CallLoad n) = True"
| "isJobWork (CallExecuteTemplate n) = True"
| "isJobWork (CallDecodeInto buf) = True"
| "isJobWork (CallCreateJobToWatch j namespace) = True"
| "isJobWork e = False"

definition jobWork :: "Run \<Rightarrow> event list" where
  "jobWork r = filter isJobWork (trace r @ spawned r)"

text \<open>The service names the factory was called with, in order.\<close>

fun factoryCalls :: "event list \<Rightarrow> string list" where
  "factoryCalls [] = []"
| "factoryCalls (CallFactory service # evs) = service # factoryCalls evs"
| "factoryCalls (e # evs) = factoryCalls evs"

text \<open>The descriptors handed to \<^verbatim>\<open>UpdateDeployConfigInNamespace\<close>, in order.\<close>

fun persisted :: "event list \<Rightarrow> DeploymentConfig list" where
  "persisted [] = []"
| "persisted (CallUpdateDeployConfigInNamespace namespace d # evs) = d # persisted evs"
| "persisted (e # evs) = persisted evs"

text \<open>The statuses published, in order.\<close>

fun publishedStatuses :: "event list \<Rightarrow> string list" where
  "publishedStatuses [] = []"
| "publishedStatuses (Publish key status description # evs) = status # publishedStatuses evs"
| "publishedStatuses (e # evs) = publishedStatuses evs"

text \<open>An environment without an entry of the given name.\<close>

definition lacksEnv :: "string \<Rightarrow> EnvVar list \<Rightarrow> bool" where
  "lacksEnv n env = (n \<notin> set (map envName env))"

section \<open>An example cluster\<close>

text \<open>
  The application \<open>app1\<close> in namespace \<open>ns\<close>, data descriptors of a given kind with a given
  environment, and a client that answers from a list of sibling descriptors by their
  labels, with a fixed answer to the job lookup and to the job submission.
\<close>

definition exampleCatalog :: Catalog where
  "exampleCatalog =
     \<lparr>templateCacheRedis = ''cache'', templateDataMongo = ''data-mongo'', templateDataMysql = ''data-mysql''\<rparr>"

definition exampleConfig :: Configuration where
  "exampleConfig =
     \<lparr>DeploymentName = ''app1'', NameSpace = ''ns'', Action = ''provision'', InstanceID = ''app1''\<rparr>"

definition app1 :: DeploymentConfig where
  "app1 =
     \<lparr>dcName = ''app1'', labels = [''rhmap/guid'' \<mapsto> ''guid1''],
      containers = [\<lparr>containerName = ''app1'',
                     containerEnv = [\<lparr>envName = ''FH_REDIS_HOST'', envValue = ''localhost''\<rparr>]\<rparr>]\<rparr>"

definition dataDc :: "string \<Rightarrow> EnvVar list \<Rightarrow> DeploymentConfig" where
  "dataDc kind env =
     \<lparr>dcName = kind,
      labels = [''rhmap/name'' \<mapsto> kind, ''rhmap/type'' \<mapsto> ''environmentService''],
      containers = [\<lparr>containerName = kind, containerEnv = env\<rparr>]\<rparr>"

definition mongoEnv :: "EnvVar list" where
  "mongoEnv = [\<lparr>envName = ''MONGODB_ADMIN_PASSWORD'', envValue = ''secret''\<rparr>,
               \<lparr>envName = ''MONGODB_REPLICA_NAME'', envValue = ''rs0''\<rparr>]"

definition mysqlEnv :: "EnvVar list" where
  "mysqlEnv = [\<lparr>envName = ''MYSQL_ROOT_PASSWORD'', envValue = ''secret''\<rparr>]"

definition plainEnv :: "EnvVar list" where
  "plainEnv = [\<lparr>envName = ''TZ'', envValue = ''UTC''\<rparr>]"

definition matches :: "(string \<times> string) list \<Rightarrow> DeploymentConfig \<Rightarrow> bool" where
  "matches selector d = list_all (\<lambda>(k, v). labels d k = Some v) selector"

definition stubClient :: "DeploymentConfig list \<Rightarrow> error + Job option \<Rightarrow> error + watchEvent list \<Rightarrow> Client" where
  "stubClient siblings jobAnswer watchAnswer =
     \<lparr>GetDeploymentConfigByName = (\<lambda>namespace n. if n = ''app1'' then Inr (Some app1) else Inr None),
      FindDeploymentConfigsByLabel = (\<lambda>namespace selector. Inr (filter (matches selector) siblings)),
      UpdateDeployConfigInNamespace = (\<lambda>namespace d. Inr d),
      FindJobByName = (\<lambda>namespace n. jobAnswer),
      FindServiceByLabel = (\<lambda>namespace selector. Inr (map (\<lambda>(k, v). \<lparr>svcName = v\<rparr>) selector)),
      CreateJobToWatch = (\<lambda>j namespace. watchAnswer)\<rparr>"

text \<open>
  Clusters with both data services deployed: one where the provisioning job exists
  already, one where the job lookup fails, one where the data descriptors carry no admin
  credentials, one where they carry none and the job exists, and one where submitting a
  job fails.
\<close>

definition existingJobClient :: Client where
  "existingJobClient =
     stubClient [dataDc ''data-mongo'' mongoEnv, dataDc ''data-mysql'' mysqlEnv]
       (Inr (Some (Job ''app1-dataconfig-job''))) (Inr [])"

definition lookupFailsClient :: Client where
  "lookupFailsClient =
     stubClient [dataDc ''data-mongo'' mongoEnv, dataDc ''data-mysql'' mysqlEnv]
       (Inl (Error ''connection refused'')) (Inr [])"

definition noCredentialsClient :: Client where
  "noCredentialsClient =
     stubClient [dataDc ''data-mongo'' plainEnv, dataDc ''cache'' [], dataDc ''data-mysql'' plainEnv]
       (Inr None) (Inr [])"

definition existingJobNoCredentialsClient :: Client where
  "existingJobNoCredentialsClient =
     stubClient [dataDc ''data-mongo'' plainEnv, dataDc ''data-mysql'' plainEnv]
       (Inr (Some (Job ''app1-dataconfig-job''))) (Inr [])"

text \<open>
  Clusters where no data descriptor is deployed, one where the provisioning job exists
  and one where the job lookup fails; and the cluster without admin credentials where no
  data service is found either, and the one where the job lookup fails.
\<close>

definition existingJobNoDataClient :: Client where
  "existingJobNoDataClient = stubClient [] (Inr (Some (Job ''app1-dataconfig-job''))) (Inr [])"

definition lookupFailsNoDataClient :: Client where
  "lookupFailsNoDataClient = stubClient [] (Inl (Error ''connection refused'')) (Inr [])"

definition lookupFailsNoCredentialsClient :: Client where
  "lookupFailsNoCredentialsClient =
     stubClient [dataDc ''data-mongo'' plainEnv, dataDc ''data-mysql'' plainEnv]
       (Inl (Error ''connection refused'')) (Inr [])"

definition noServiceClient :: Client where
  "noServiceClient = noCredentialsClient\<lparr>FindServiceByLabel := (\<lambda>namespace selector. Inr [])\<rparr>"

definition submitFailsClient :: Client where
  "submitFailsClient =
     stubClient [dataDc ''data-mongo'' mongoEnv, dataDc ''data-mysql'' mysqlEnv]
       (Inr None) (Inl (Error ''forbidden''))"

definition exampleDeps :: Deps where
  "exampleDeps =
     \<lparr>Load = (\<lambda>n. Inr (\<lambda>t opts. Inr (''job from '' @ t))),
      DecodeInto = (\<lambda>buf. Inr (Job buf)),
      randSource = (\<lambda>i. 7 * i),
      rangeChoices = (\<lambda>ci. [2, 0])\<rparr>"

definition emptyStore :: store where
  "emptyStore = Map.empty"

text \<open>
  Two dispatched dependencies: the watch endpoint of \<open>A\<close> always answers with a success
  body, that of \<open>B\<close> never does; the clock's second advances with every round.
\<close>

definition depA :: Dispatched where
  "depA = \<lparr>depDeploymentName = ''A'', WatchURL = ''https://cluster/watch/a''\<rparr>"

definition depB :: Dispatched where
  "depB = \<lparr>depDeploymentName = ''B'', WatchURL = ''https://cluster/watch/b''\<rparr>"

definition examplePoller :: Poller where
  "examplePoller =
     \<lparr>httpGet = (\<lambda>d i. if depDeploymentName d = ''A'' then Inr ''Deployment Success''
                          else Inr ''Deployment pending''),
      second = (\<lambda>d i. int (i mod 60))\<rparr>"

text \<open>
  Round \<open>k\<close> of the polling loop leaves it: the request fails (a panic) or the body holds
  the marker (a return).
\<close>

definition exits :: "Poller \<Rightarrow> Dispatched \<Rightarrow> nat \<Rightarrow> bool" where
  "exits p d k =
     (case httpGet p d k of
        Inl err \<Rightarrow> True
      | Inr body \<Rightarrow> contains (toLower body) ''success'')"

section \<open>Basic facts\<close>

lemmas fixture_defs =
  exampleCatalog_def exampleConfig_def app1_def dataDc_def mongoEnv_def mysqlEnv_def plainEnv_def
  matches_def stubClient_def exampleDeps_def existingJobClient_def lookupFailsClient_def
  noCredentialsClient_def existingJobNoCredentialsClient_def submitFailsClient_def
  existingJobNoDataClient_def lookupFailsNoDataClient_def noServiceClient_def
  lookupFailsNoCredentialsClient_def

lemma emit_simps [simp]:
  "result (emit evs r) = result r" "target (emit evs r) = target r"
  "trace (emit evs r) = evs @ trace r" "spawned (emit evs r) = spawned r"
  by (simp_all add: emit_def)

lemma returns_simps [simp]:
  "result (returns evs ret d) = Return ret" "target (returns evs ret d) = d"
  "trace (returns evs ret d) = evs" "spawned (returns evs ret d) = []"
  by (simp_all add: returns_def)

lemma panics_simps [simp]:
  "result (panics msg d) = Panic msg" "target (panics msg d) = d"
  "trace (panics msg d) = []" "spawned (panics msg d) = []"
  by (simp_all add: panics_def)

lemma isJobWork_statusUpdate [simp]: "\<not> isJobWork (statusUpdate k d s)"
  by (simp add: statusUpdate_def)

text \<open>Whatever the choices, a range visits every entry of the map once.\<close>

lemma rangeOrder_permutes: "mset (rangeOrder ks xs) = mset xs"
proof (induction ks xs rule: rangeOrder.induct)
  case (1 xs)
  then show ?case by simp
next
  case (2 k ks)
  then show ?case by simp
next
  case (3 k ks x xs)
  define i where "i = k mod Suc (length xs)"
  have i: "i < length (x # xs)" by (simp add: i_def)
  have "mset (x # xs) = mset (take i (x # xs) @ (x # xs) ! i # drop (Suc i) (x # xs))"
    using id_take_nth_drop [OF i] by simp
  then show ?case using 3 by (simp add: i_def)
qed

section \<open>The controller drops the Configurers' errors\<close>

text \<open>
  The loop never appends to \<open>errs\<close> when it is entered with \<open>err\<close> nil, which is the only
  way \<open>Configure\<close> enters it.
\<close>

lemma configureServices_errs:
  "lsErrs (fst (configureServices cat deps client config None services st)) = lsErrs st"
proof (induction services arbitrary: st)
  case Nil
  then show ?case by simp
next
  case (Cons s services)
  show ?case
    by (simp add: Let_def Cons.IH split: outcome.splits)
qed

lemma configureServices_errs_pair:
  "configureServices cat deps client config None services st0 = (st, p) \<Longrightarrow> lsErrs st = lsErrs st0"
  using configureServices_errs [of cat deps client config services st0] by simp

text \<open>
  So once the target descriptor and the list of services are found, the only error
  \<open>Configure\<close> can return is the wrapped error of the final update.
\<close>

lemma Configure_error_is_update_error:
  assumes "GetDeploymentConfigByName client (NameSpace config) (DeploymentName config) = Inr (Some deployment)"
    and "FindDeploymentConfigsByLabel client (NameSpace config) [(''rhmap/type'', ''environmentService'')]
           = Inr services"
    and "cResult (Configure cat deps client config) = Return (Some e)"
  shows "\<exists>err. e = errorsWrap err ''failed to update deployment after configuring it ''"
  using assms
  by (auto simp: Configure_def Let_def split: sum.splits option.splits prod.splits if_splits
           dest!: configureServices_errs_pair)

text \<open>
  Claim C1. When at least one Configurer returns an error, the descriptor is still
  persisted, every other Configurer of the sibling list is still invoked, and the error
  \<open>Configure\<close> returns is an aggregate that holds the message of every failing Configurer.

  The code does the first two and not the third. In the example cluster without admin
  credentials the document-database and the relational-database Configurers both return
  an error; the factory is called for all three services and the descriptor is
  persisted once, yet \<open>Configure\<close> returns nil and its last status is "succeeded".
\<close>

theorem Configure_loses_configurer_errors:
  "result (mongoConfigure exampleDeps ''app1:provision'' noCredentialsClient app1 ''ns'')
     = Return (None, Some (Error ''expected to find an admin password but there was non present''))
   \<and> result (mysqlConfigure exampleCatalog exampleDeps ''app1:provision'' noCredentialsClient
                (target (cacheConfigure ''app1:provision'' noCredentialsClient app1 ''ns'')) ''ns'')
     = Return (None, Some (Error ''expected to find an env var: MYSQL_ROOT_PASSWORD but it was not present''))
   \<and> factoryCalls (cTrace (Configure exampleCatalog exampleDeps noCredentialsClient exampleConfig))
     = [''data-mongo'', ''cache'', ''data-mysql'']
   \<and> length (persisted (cTrace (Configure exampleCatalog exampleDeps noCredentialsClient exampleConfig))) = 1
   \<and> cResult (Configure exampleCatalog exampleDeps noCredentialsClient exampleConfig) = Return None
   \<and> last (cTrace (Configure exampleCatalog exampleDeps noCredentialsClient exampleConfig))
     = Publish ''app1:provision'' ''succeeded'' ''service configuration complete''"
  by (simp add: Configure_def Factory_def StatusKey_def cacheConfigure_def cacheSetEnv_def
        mongoConfigure_def mongoLocate_def mongoBuildJob_def
        mysqlConfigure_def mysqlBuildJob_def fixture_defs errorsNew_def statusUpdate_def
        configInProgress_def configError_def configComplete_def showNat.simps Let_def)

section \<open>The polling loop has no way out on a timeout\<close>

text \<open>A goroutine that returns or panics met a round that leaves the loop.\<close>

lemma pollDependency_exit:
  assumes "pollDependency p dependency start i depErrors = Some y"
  shows "\<exists>k\<ge>i. exits p dependency k"
proof (rule pollDependency.raw_induct
         [where P = "\<lambda>p dependency start i depErrors y. \<exists>k\<ge>i. exits p dependency k", OF _ assms])
  fix f p dependency start i depErrors and y :: "string list outcome"
  assume IH: "\<And>p dependency start i depErrors y.
                f p dependency start i depErrors = Some y \<Longrightarrow> \<exists>k\<ge>i. exits p dependency k"
    and step: "(case httpGet p dependency i of
                  Inl err \<Rightarrow> Some (Panic (errorMsg err))
                | Inr body \<Rightarrow>
                    if contains (toLower body) ''success''
                    then Some (Return depErrors)
                    else f p dependency start (Suc i)
                           (if second p dependency (Suc i) - start > 300
                            then depErrors @ [''Failed to deploy dependency: '' @ depDeploymentName dependency]
                            else depErrors)) = Some y"
  show "\<exists>k\<ge>i. exits p dependency k"
  proof (cases "exits p dependency i")
    case True
    then show ?thesis by blast
  next
    case False
    with step obtain errs' where "f p dependency start (Suc i) errs' = Some y"
      by (auto simp: exits_def split: sum.splits if_splits)
    then obtain k where "k \<ge> Suc i" "exits p dependency k" using IH by blast
    then show ?thesis by (meson Suc_leD)
  qed
qed

text \<open>So a dependency whose endpoint never answers with the marker keeps its goroutine in the loop for ever.\<close>

lemma pollDependency_never:
  "(\<forall>k. \<not> exits p dependency k) \<Longrightarrow> pollDependency p dependency start i depErrors = None"
  using pollDependency_exit [of p dependency start i depErrors]
  by (cases "pollDependency p dependency start i depErrors") auto

text \<open>
  The timeout test compares the difference of two readings of \<^verbatim>\<open>Second()\<close> with 300. As
  long as no difference exceeds 300 (readings of \<^verbatim>\<open>Second()\<close> lie between 0 and 59), a
  goroutine that returns has appended nothing.
\<close>

lemma timeout_never_fires:
  assumes run: "pollDependency p dependency start i depErrors = Some y"
  shows "(\<forall>k. second p dependency k - start \<le> 300) \<longrightarrow> y = Return errs \<longrightarrow> errs = depErrors"
proof (rule pollDependency.raw_induct
         [where P = "\<lambda>p dependency start i depErrors y.
                       (\<forall>k. second p dependency k - start \<le> 300) \<longrightarrow> y = Return errs \<longrightarrow> errs = depErrors",
          OF _ run])
  fix f p dependency start i depErrors and y :: "string list outcome"
  assume IH: "\<And>p dependency start i depErrors y.
                f p dependency start i depErrors = Some y \<Longrightarrow>
                (\<forall>k. second p dependency k - start \<le> 300) \<longrightarrow> y = Return errs \<longrightarrow> errs = depErrors"
    and step: "(case httpGet p dependency i of
                  Inl err \<Rightarrow> Some (Panic (errorMsg err))
                | Inr body \<Rightarrow>
                    if contains (toLower body) ''success''
                    then Some (Return depErrors)
                    else f p dependency start (Suc i)
                           (if second p dependency (Suc i) - start > 300
                            then depErrors @ [''Failed to deploy dependency: '' @ depDeploymentName dependency]
                            else depErrors)) = Some y"
  show "(\<forall>k. second p dependency k - start \<le> 300) \<longrightarrow> y = Return errs \<longrightarrow> errs = depErrors"
  proof (intro impI)
    assume bound: "\<forall>k. second p dependency k - start \<le> 300" and y: "y = Return errs"
    then have le: "\<not> second p dependency (Suc i) - start > 300"
      by (simp add: not_less)
    from step le y bound show "errs = depErrors"
      by (auto split: sum.splits if_splits dest: IH)
  qed
qed

lemma depA_returns: "pollDependency examplePoller depA start 0 depErrors = Some (Return depErrors)"
  by (subst pollDependency.simps) (simp add: examplePoller_def depA_def toLower_def toLowerChar_def)

lemma depB_never: "pollDependency examplePoller depB start i depErrors = None"
  by (rule pollDependency_never)
     (simp add: exits_def examplePoller_def depB_def toLower_def toLowerChar_def)

text \<open>
  Claim C2. If the watch endpoint of at least one dependency never returns a body with the
  marker "success", \<open>waitForDependencies\<close> still terminates once the budget of 300 is
  exceeded, and returns an aggregate error that names exactly the dependencies that timed
  out.

  The code does not return: the timeout branch appends a message and the loop goes round
  again. With \<open>A\<close> (always a success body) alone the wait returns nil; with \<open>B\<close> (never a
  success body) in the list it never returns, whatever the clock reads.
\<close>

theorem waitForDependencies_never_returns:
  "waitForDependencies examplePoller [depA] = Some (Return None)
   \<and> waitForDependencies examplePoller [depA, depB] = None
   \<and> waitForDependencies examplePoller [depB] = None"
  by (simp add: waitForDependencies_def depA_returns depB_never)

section \<open>The two status keys\<close>

lemma StatusKey_eq: "StatusKey instanceID operation = instanceID @ '':'' @ operation"
  by (simp add: StatusKey_def)

lemma lastActionKey_noplan: "lastActionKey instanceID [] operation = instanceID @ '':noplan:'' @ operation"
  by (simp add: lastActionKey_def)

lemma keys_differ: "StatusKey instanceID operation \<noteq> lastActionKey instanceID [] operation"
proof
  assume "StatusKey instanceID operation = lastActionKey instanceID [] operation"
  then have "length (StatusKey instanceID operation) = length (lastActionKey instanceID [] operation)"
    by simp
  then show False
    by (simp add: StatusKey_eq lastActionKey_noplan)
qed

text \<open>
  Claim C3. Publishing a status "succeeded" under the controller's status key and then
  retrieving it through the last-action lookup for the same instance and operation, with
  the plan omitted, yields a status "succeeded": the two keys denote the same entry.

  As amended: a status "succeeded" published under the key the last-action lookup derives
  (\<open>instanceID:planID:operation\<close>, the plan "noplan" when omitted) is what the lookup
  retrieves. The controller's key \<open>instanceID:operation\<close> is a different key for every
  instance and operation, and publishing under it leaves the answer of the lookup as it
  was.
\<close>

theorem status_roundtrip_same_key:
  "(\<exists>s. LastAction (storeGet (storePublish (lastActionKey instanceID planID operation)
                                    ''succeeded'' description st))
           instanceID planID operation = Encoded s
        \<and> statusStatus s = ''succeeded'')
   \<and> StatusKey instanceID operation \<noteq> lastActionKey instanceID [] operation
   \<and> LastAction (storeGet (storePublish (StatusKey instanceID operation) status description st))
        instanceID [] operation
      = LastAction (storeGet st) instanceID [] operation"
proof (intro conjI)
  show "\<exists>s. LastAction (storeGet (storePublish (lastActionKey instanceID planID operation)
                                      ''succeeded'' description st))
              instanceID planID operation = Encoded s
           \<and> statusStatus s = ''succeeded''"
    by (simp add: LastAction_def storeGet_def storePublish_def)
  show "StatusKey instanceID operation \<noteq> lastActionKey instanceID [] operation"
    by (rule keys_differ)
  have "lastActionKey instanceID [] operation \<noteq> StatusKey instanceID operation"
    by (rule keys_differ [THEN not_sym])
  then show "LastAction (storeGet (storePublish (StatusKey instanceID operation) status description st))
               instanceID [] operation
             = LastAction (storeGet st) instanceID [] operation"
    by (simp add: LastAction_def storeGet_def storePublish_def)
qed

text \<open>
  The claim as stated fails: after the controller's key for instance \<open>app1\<close> and operation
  \<open>provision\<close> is published to an empty store, the lookup answers 404.
\<close>

theorem status_roundtrip_counterexample:
  "responseCode
     (LastAction (storeGet (storePublish (StatusKey ''app1'' ''provision'') ''succeeded'' ''done'' emptyStore))
        ''app1'' [] ''provision'')
   = 404"
  by (simp add: LastAction_def storeGet_def storePublish_def StatusKey_def lastActionKey_def emptyStore_def)

section \<open>At most one Configurer per service name\<close>

lemma factoryCalls_append [simp]: "factoryCalls (xs @ ys) = factoryCalls xs @ factoryCalls ys"
  by (induction xs rule: factoryCalls.induct) simp_all

lemma factoryCalls_statusUpdate [simp]: "factoryCalls (statusUpdate k d s # evs) = factoryCalls evs"
  by (simp add: statusUpdate_def)













section \<open>The existing-job guard\<close>

text \<open>
  Where the job lookup stands in each Configurer: the document-database Configurer makes
  it for every descriptor but its own, the relational-database Configurer only once it
  has also found the data descriptor.
\<close>

lemma mongo_findjob_iff:
  "CallFindJobByName namespace (dcName d @ ''-dataconfig-job'')
     \<in> set (trace (mongoConfigure deps statusKey client d namespace))
   \<longleftrightarrow> labels d ''rhmap/name'' \<noteq> Some ''data-mongo''"
  by (simp add: mongoConfigure_def statusUpdate_def)

lemma mysql_findjob_iff:
  "CallFindJobByName namespace (dcName d @ ''-dataconfig-job'')
     \<in> set (trace (mysqlConfigure cat deps statusKey client d namespace))
   \<longleftrightarrow> labels d ''rhmap/name'' \<noteq> Some (templateDataMysql cat) \<and>
      (\<exists>dataDc0 rest. FindDeploymentConfigsByLabel client namespace
                         [(''rhmap/name'', templateDataMysql cat)] = Inr (dataDc0 # rest))"
  by (auto simp: mysqlConfigure_def statusUpdate_def split: sum.splits list.splits if_splits)

text \<open>
  Claim C6. For both database strategies, if \<open>FindJobByName\<close> reports that a provisioning
  job named \<open><deploymentName>-dataconfig-job\<close> exists already, \<open>Configure\<close> returns the
  deployment with a nil error, publishes the status "complete", and loads no template,
  decodes no job and submits no job.

  As amended, with the hypothesis on the client alone (its answer to \<open>FindJobByName\<close> for
  that name is a job): both strategies load no template, decode no job and submit no
  job, in the call and in a goroutine. The document-database strategy returns the
  deployment, unchanged, with a nil error, and publishes "complete" when the target is
  not its own descriptor. The relational-database strategy returns the deployment,
  unchanged, with a nil error when the target is its own descriptor or the data
  descriptor is found, and publishes "complete" when the target is not its own
  descriptor and the data descriptor is found.
\<close>

theorem existing_job_guard:
  "FindJobByName client namespace (dcName d @ ''-dataconfig-job'') = Inr (Some job) \<longrightarrow>
     result (mongoConfigure deps statusKey client d namespace) = Return (Some d, None)
     \<and> target (mongoConfigure deps statusKey client d namespace) = d
     \<and> jobWork (mongoConfigure deps statusKey client d namespace) = []
     \<and> jobWork (mysqlConfigure cat deps statusKey client d namespace) = []
     \<and> (labels d ''rhmap/name'' \<noteq> Some ''data-mongo'' \<longrightarrow>
          Publish statusKey ''complete''
            (''configuration job '' @ dcName d @ ''-dataconfig-job already exists. No need to run again '')
          \<in> set (trace (mongoConfigure deps statusKey client d namespace)))
     \<and> (labels d ''rhmap/name'' = Some (templateDataMysql cat)
          \<or> FindDeploymentConfigsByLabel client namespace [(''rhmap/name'', templateDataMysql cat)]
               = Inr (dataDc0 # rest) \<longrightarrow>
          result (mysqlConfigure cat deps statusKey client d namespace) = Return (Some d, None)
          \<and> target (mysqlConfigure cat deps statusKey client d namespace) = d)
     \<and> (labels d ''rhmap/name'' \<noteq> Some (templateDataMysql cat)
          \<and> FindDeploymentConfigsByLabel client namespace [(''rhmap/name'', templateDataMysql cat)]
               = Inr (dataDc0 # rest) \<longrightarrow>
          Publish statusKey ''complete''
            (''configuration job '' @ dcName d @ ''-dataconfig-job already exists. No need to run again '')
          \<in> set (trace (mysqlConfigure cat deps statusKey client d namespace)))"
proof (intro conjI impI)
  assume a: "FindJobByName client namespace (dcName d @ ''-dataconfig-job'') = Inr (Some job)"
  from a show "result (mongoConfigure deps statusKey client d namespace) = Return (Some d, None)"
    by (simp add: mongoConfigure_def)
  from a show "target (mongoConfigure deps statusKey client d namespace) = d"
    by (simp add: mongoConfigure_def)
  from a show "jobWork (mongoConfigure deps statusKey client d namespace) = []"
    by (simp add: mongoConfigure_def jobWork_def)
  from a show "jobWork (mysqlConfigure cat deps statusKey client d namespace) = []"
    by (simp add: mysqlConfigure_def jobWork_def split: sum.splits list.splits)
next
  assume a: "FindJobByName client namespace (dcName d @ ''-dataconfig-job'') = Inr (Some job)"
    and n: "labels d ''rhmap/name'' \<noteq> Some ''data-mongo''"
  from a n show "Publish statusKey ''complete''
            (''configuration job '' @ dcName d @ ''-dataconfig-job already exists. No need to run again '')
          \<in> set (trace (mongoConfigure deps statusKey client d namespace))"
    by (simp add: mongoConfigure_def statusUpdate_def)
next
  assume a: "FindJobByName client namespace (dcName d @ ''-dataconfig-job'') = Inr (Some job)"
    and r: "labels d ''rhmap/name'' = Some (templateDataMysql cat)
          \<or> FindDeploymentConfigsByLabel client namespace [(''rhmap/name'', templateDataMysql cat)]
               = Inr (dataDc0 # rest)"
  from a r show "result (mysqlConfigure cat deps statusKey client d namespace) = Return (Some d, None)"
    by (auto simp: mysqlConfigure_def)
  from a r show "target (mysqlConfigure cat deps statusKey client d namespace) = d"
    by (auto simp: mysqlConfigure_def)
next
  assume a: "FindJobByName client namespace (dcName d @ ''-dataconfig-job'') = Inr (Some job)"
    and r: "labels d ''rhmap/name'' \<noteq> Some (templateDataMysql cat)
          \<and> FindDeploymentConfigsByLabel client namespace [(''rhmap/name'', templateDataMysql cat)]
               = Inr (dataDc0 # rest)"
  from a r show "Publish statusKey ''complete''
            (''configuration job '' @ dcName d @ ''-dataconfig-job already exists. No need to run again '')
          \<in> set (trace (mysqlConfigure cat deps statusKey client d namespace))"
    by (simp add: mysqlConfigure_def statusUpdate_def)
qed

text \<open>
  The example cluster where the job exists: the application is no data descriptor, and
  the data descriptor of the relational database is found.
\<close>

theorem existing_job_guard_witness:
  "FindJobByName existingJobClient ''ns'' (dcName app1 @ ''-dataconfig-job'')
     = Inr (Some (Job ''app1-dataconfig-job''))
   \<and> labels app1 ''rhmap/name'' \<noteq> Some ''data-mongo''
   \<and> labels app1 ''rhmap/name'' \<noteq> Some (templateDataMysql exampleCatalog)
   \<and> FindDeploymentConfigsByLabel existingJobClient ''ns'' [(''rhmap/name'', templateDataMysql exampleCatalog)]
     = Inr (dataDc ''data-mysql'' mysqlEnv # [])
   \<and> result (mongoConfigure exampleDeps ''app1:provision'' existingJobClient app1 ''ns'')
     = Return (Some app1, None)
   \<and> jobWork (mongoConfigure exampleDeps ''app1:provision'' existingJobClient app1 ''ns'') = []
   \<and> Publish ''app1:provision'' ''complete''
        (''configuration job '' @ dcName app1 @ ''-dataconfig-job already exists. No need to run again '')
     \<in> set (trace (mongoConfigure exampleDeps ''app1:provision'' existingJobClient app1 ''ns''))
   \<and> result (mysqlConfigure exampleCatalog exampleDeps ''app1:provision'' existingJobClient app1 ''ns'')
     = Return (Some app1, None)
   \<and> jobWork (mysqlConfigure exampleCatalog exampleDeps ''app1:provision'' existingJobClient app1 ''ns'') = []
   \<and> Publish ''app1:provision'' ''complete''
        (''configuration job '' @ dcName app1 @ ''-dataconfig-job already exists. No need to run again '')
     \<in> set (trace (mysqlConfigure exampleCatalog exampleDeps ''app1:provision'' existingJobClient app1 ''ns''))"
proof -
  have f: "FindJobByName existingJobClient ''ns'' (dcName app1 @ ''-dataconfig-job'')
     = Inr (Some (Job ''app1-dataconfig-job''))"
    by (simp add: existingJobClient_def stubClient_def)
  have o: "labels app1 ''rhmap/name'' \<noteq> Some ''data-mongo''"
    "labels app1 ''rhmap/name'' \<noteq> Some (templateDataMysql exampleCatalog)"
    by (simp_all add: app1_def)
  have dc: "FindDeploymentConfigsByLabel existingJobClient ''ns''
              [(''rhmap/name'', templateDataMysql exampleCatalog)]
     = Inr (dataDc ''data-mysql'' mysqlEnv # [])"
    by (simp add: existingJobClient_def stubClient_def matches_def dataDc_def exampleCatalog_def)
  show ?thesis
    using f o dc
      existing_job_guard [of existingJobClient "''ns''" app1 "Job ''app1-dataconfig-job''"
        exampleDeps "''app1:provision''" exampleCatalog "dataDc ''data-mysql'' mysqlEnv" "[]"]
    by simp
qed

text \<open>
  The claim as stated fails on two inputs. Where the job exists and no data descriptor
  is deployed, the relational-database Configurer stops before the job lookup: it
  returns an error and publishes "failed". Where the target is the document database's
  own descriptor, the lookup is not made either, and the only statuses published are "in
  progress".
\<close>

theorem existing_job_guard_counterexample:
  "FindJobByName existingJobNoDataClient ''ns'' (dcName app1 @ ''-dataconfig-job'')
     = Inr (Some (Job ''app1-dataconfig-job''))
   \<and> result (mysqlConfigure exampleCatalog exampleDeps ''app1:provision'' existingJobNoDataClient app1 ''ns'')
     = Return (None, Some (Error ''no data DeploymentConfig exists. Cannot continue''))
   \<and> publishedStatuses
        (trace (mysqlConfigure exampleCatalog exampleDeps ''app1:provision'' existingJobNoDataClient app1 ''ns''))
     = [''in progress'', ''failed'']
   \<and> FindJobByName existingJobClient ''ns'' (dcName (dataDc ''data-mongo'' mongoEnv) @ ''-dataconfig-job'')
     = Inr (Some (Job ''app1-dataconfig-job''))
   \<and> publishedStatuses
        (trace (mongoConfigure exampleDeps ''app1:provision'' existingJobClient
                  (dataDc ''data-mongo'' mongoEnv) ''ns''))
     = [''in progress'', ''in progress'']"
  by (simp add: mysqlConfigure_def mongoConfigure_def fixture_defs errorsNew_def statusUpdate_def
        configInProgress_def configError_def)

section \<open>Missing admin credentials\<close>

lemma mongoScanEnv_found:
  "fst (mongoScanEnv env (found, opts)) = (found \<or> ''MONGODB_ADMIN_PASSWORD'' \<in> set (map envName env))"
  by (induction env arbitrary: found opts) (auto simp: Let_def)

lemma mongoScanEnv_lacks:
  "lacksEnv ''MONGODB_ADMIN_PASSWORD'' env \<Longrightarrow> \<exists>opts. mongoScanEnv env (False, Map.empty) = (False, opts)"
  using mongoScanEnv_found [of env False Map.empty]
  by (cases "mongoScanEnv env (False, Map.empty)") (simp add: lacksEnv_def)

lemma mysql_find_lacks:
  "lacksEnv ''MYSQL_ROOT_PASSWORD'' env \<Longrightarrow> find (\<lambda>e. envName e = ''MYSQL_ROOT_PASSWORD'') env = None"
  by (force simp: lacksEnv_def find_None_iff)

lemma mongoBuildJob_lacks:
  assumes "containers dataDc0 = c0 # cs" and "lacksEnv ''MONGODB_ADMIN_PASSWORD'' (containerEnv c0)"
  shows "mongoBuildJob deps statusKey client d namespace dataDc0 dataService0 =
     returns [statusUpdate statusKey ''expected to find an admin password but there was non present'' configError]
       (None, Some (errorsNew ''expected to find an admin password but there was non present'')) d"
proof -
  obtain opts where "mongoScanEnv (containerEnv c0) (False, Map.empty) = (False, opts)"
    using mongoScanEnv_lacks [OF assms(2)] by blast
  with assms(1) show ?thesis by (simp add: mongoBuildJob_def)
qed

lemma mysqlBuildJob_lacks:
  assumes "containers dataDc0 = c0 # cs" and "lacksEnv ''MYSQL_ROOT_PASSWORD'' (containerEnv c0)"
  shows "mysqlBuildJob deps statusKey client d namespace dataDc0 dataService0 =
     returns [statusUpdate statusKey
                ''expected to find an env var: MYSQL_ROOT_PASSWORD but it was not present'' configError]
       (None, Some (errorsNew ''expected to find an env var: MYSQL_ROOT_PASSWORD but it was not present'')) d"
  using assms mysql_find_lacks [OF assms(2)] by (simp add: mysqlBuildJob_def)

text \<open>Whatever else the cluster holds, a data descriptor without the credential means no job work.\<close>

lemma mongo_no_job_work:
  assumes "FindDeploymentConfigsByLabel client namespace [(''rhmap/name'', ''data-mongo'')] = Inr (dataDc0 # rest)"
    and "containers dataDc0 = c0 # cs" and "lacksEnv ''MONGODB_ADMIN_PASSWORD'' (containerEnv c0)"
  shows "jobWork (mongoConfigure deps statusKey client d namespace) = []"
  using assms mongoBuildJob_lacks [OF assms(2,3)]
  by (simp add: mongoConfigure_def mongoLocate_def jobWork_def
           split: sum.splits option.splits list.splits)

lemma mysql_no_job_work:
  assumes "FindDeploymentConfigsByLabel client namespace [(''rhmap/name'', templateDataMysql cat)]
             = Inr (dataDc0 # rest)"
    and "containers dataDc0 = c0 # cs" and "lacksEnv ''MYSQL_ROOT_PASSWORD'' (containerEnv c0)"
  shows "jobWork (mysqlConfigure cat deps statusKey client d namespace) = []"
  using assms mysqlBuildJob_lacks [OF assms(2,3)]
  by (simp add: mysqlConfigure_def jobWork_def split: sum.splits option.splits list.splits)

text \<open>
  Past the own-descriptor check and the existing-job guard, a data descriptor without the
  credential always ends in an error and a status "failed", whatever the lookup of the
  data service answers.
\<close>

lemma mongo_missing_credentials_error:
  assumes "labels d ''rhmap/name'' \<noteq> Some ''data-mongo''"
    and "FindJobByName client namespace (dcName d @ ''-dataconfig-job'') = Inr None"
    and "FindDeploymentConfigsByLabel client namespace [(''rhmap/name'', ''data-mongo'')] = Inr (dataDc0 # rest)"
    and "containers dataDc0 = c0 # cs" and "lacksEnv ''MONGODB_ADMIN_PASSWORD'' (containerEnv c0)"
  shows "\<exists>e. result (mongoConfigure deps statusKey client d namespace) = Return (None, Some e)"
    and "\<exists>msg. Publish statusKey configError msg \<in> set (trace (mongoConfigure deps statusKey client d namespace))"
  using assms(1-3) mongoBuildJob_lacks [OF assms(4,5)]
  by (auto simp: mongoConfigure_def mongoLocate_def statusUpdate_def split: sum.splits list.splits)

lemma mysql_missing_credentials_error:
  assumes "labels d ''rhmap/name'' \<noteq> Some (templateDataMysql cat)"
    and "FindJobByName client namespace (dcName d @ ''-dataconfig-job'') = Inr None"
    and "FindDeploymentConfigsByLabel client namespace [(''rhmap/name'', templateDataMysql cat)]
           = Inr (dataDc0 # rest)"
    and "containers dataDc0 = c0 # cs" and "lacksEnv ''MYSQL_ROOT_PASSWORD'' (containerEnv c0)"
  shows "\<exists>e. result (mysqlConfigure cat deps statusKey client d namespace) = Return (None, Some e)"
    and "\<exists>msg. Publish statusKey configError msg
           \<in> set (trace (mysqlConfigure cat deps statusKey client d namespace))"
  using assms(1-3) mysqlBuildJob_lacks [OF assms(4,5)]
  by (auto simp: mysqlConfigure_def statusUpdate_def split: sum.splits list.splits)

text \<open>When the data service is found as well, the error is the one of the credential scan.\<close>

lemma mongo_missing_credentials:
  assumes "labels d ''rhmap/name'' \<noteq> Some ''data-mongo''"
    and "FindJobByName client namespace (dcName d @ ''-dataconfig-job'') = Inr None"
    and "FindDeploymentConfigsByLabel client namespace [(''rhmap/name'', ''data-mongo'')] = Inr (dataDc0 # rest)"
    and "FindServiceByLabel client namespace [(''rhmap/name'', ''data-mongo'')] = Inr (dataService0 # rest')"
    and "containers dataDc0 = c0 # cs" and "lacksEnv ''MONGODB_ADMIN_PASSWORD'' (containerEnv c0)"
  shows "result (mongoConfigure deps statusKey client d namespace)
           = Return (None, Some (errorsNew ''expected to find an admin password but there was non present''))"
    and "Publish statusKey configError ''expected to find an admin password but there was non present''
           \<in> set (trace (mongoConfigure deps statusKey client d namespace))"
  using assms(1-4) mongoBuildJob_lacks [OF assms(5,6)]
  by (simp_all add: mongoConfigure_def mongoLocate_def statusUpdate_def)

lemma mysql_missing_credentials:
  assumes "labels d ''rhmap/name'' \<noteq> Some (templateDataMysql cat)"
    and "FindJobByName client namespace (dcName d @ ''-dataconfig-job'') = Inr None"
    and "FindDeploymentConfigsByLabel client namespace [(''rhmap/name'', templateDataMysql cat)]
           = Inr (dataDc0 # rest)"
    and "FindServiceByLabel client namespace [(''rhmap/name'', templateDataMysql cat)]
           = Inr (dataService0 # rest')"
    and "containers dataDc0 = c0 # cs" and "lacksEnv ''MYSQL_ROOT_PASSWORD'' (containerEnv c0)"
  shows "result (mysqlConfigure cat deps statusKey client d namespace)
           = Return (None, Some (errorsNew
                ''expected to find an env var: MYSQL_ROOT_PASSWORD but it was not present''))"
    and "Publish statusKey configError
           ''expected to find an env var: MYSQL_ROOT_PASSWORD but it was not present''
           \<in> set (trace (mysqlConfigure cat deps statusKey client d namespace))"
  using assms(1-4) mysqlBuildJob_lacks [OF assms(5,6)]
  by (simp_all add: mysqlConfigure_def statusUpdate_def)

text \<open>
  Claim C7. For both database strategies, if the first container environment of the
  sibling data descriptor lacks the admin-credential entry (\<open>MONGODB_ADMIN_PASSWORD\<close> for
  mongo, \<open>MYSQL_ROOT_PASSWORD\<close> for mysql), \<open>Configure\<close> returns a non-nil error, publishes
  a failure status, and never loads a template, decodes a job or submits a job.

  As amended: whenever the data descriptor the client finds lacks the entry, \<open>Configure\<close>
  loads no template, decodes no job and submits no job; and when moreover the target is
  not the strategy's own descriptor and the job lookup succeeds and finds no job,
  \<open>Configure\<close> returns a non-nil error and publishes the status "failed", whatever the
  lookup of the data service answers. (The own-descriptor check and the existing-job
  guard come first and return a nil error.) Where the data service is found too, the
  error and the status carry the message of the credential scan.
\<close>

theorem missing_admin_credential:
  "(FindDeploymentConfigsByLabel client namespace [(''rhmap/name'', ''data-mongo'')] = Inr (mongoDc # rest)
      \<and> containers mongoDc = c0 # cs \<and> lacksEnv ''MONGODB_ADMIN_PASSWORD'' (containerEnv c0) \<longrightarrow>
      jobWork (mongoConfigure deps statusKey client d namespace) = []
      \<and> (labels d ''rhmap/name'' \<noteq> Some ''data-mongo''
           \<and> FindJobByName client namespace (dcName d @ ''-dataconfig-job'') = Inr None \<longrightarrow>
           (\<exists>e. result (mongoConfigure deps statusKey client d namespace) = Return (None, Some e))
           \<and> (\<exists>msg. Publish statusKey configError msg
                       \<in> set (trace (mongoConfigure deps statusKey client d namespace)))
           \<and> (FindServiceByLabel client namespace [(''rhmap/name'', ''data-mongo'')]
                 = Inr (mongoSvc # rest') \<longrightarrow>
                result (mongoConfigure deps statusKey client d namespace)
                  = Return (None, Some (errorsNew
                       ''expected to find an admin password but there was non present''))
                \<and> Publish statusKey configError
                      ''expected to find an admin password but there was non present''
                    \<in> set (trace (mongoConfigure deps statusKey client d namespace)))))
   \<and> (FindDeploymentConfigsByLabel client namespace [(''rhmap/name'', templateDataMysql cat)]
        = Inr (mysqlDc # rest1)
      \<and> containers mysqlDc = c1 # cs1 \<and> lacksEnv ''MYSQL_ROOT_PASSWORD'' (containerEnv c1) \<longrightarrow>
      jobWork (mysqlConfigure cat deps statusKey client d namespace) = []
      \<and> (labels d ''rhmap/name'' \<noteq> Some (templateDataMysql cat)
           \<and> FindJobByName client namespace (dcName d @ ''-dataconfig-job'') = Inr None \<longrightarrow>
           (\<exists>e. result (mysqlConfigure cat deps statusKey client d namespace) = Return (None, Some e))
           \<and> (\<exists>msg. Publish statusKey configError msg
                       \<in> set (trace (mysqlConfigure cat deps statusKey client d namespace)))
           \<and> (FindServiceByLabel client namespace [(''rhmap/name'', templateDataMysql cat)]
                 = Inr (mysqlSvc # rest1') \<longrightarrow>
                result (mysqlConfigure cat deps statusKey client d namespace)
                  = Return (None, Some (errorsNew
                       ''expected to find an env var: MYSQL_ROOT_PASSWORD but it was not present''))
                \<and> Publish statusKey configError
                      ''expected to find an env var: MYSQL_ROOT_PASSWORD but it was not present''
                    \<in> set (trace (mysqlConfigure cat deps statusKey client d namespace)))))"
proof (intro conjI impI)
  assume h: "FindDeploymentConfigsByLabel client namespace [(''rhmap/name'', ''data-mongo'')] = Inr (mongoDc # rest)
      \<and> containers mongoDc = c0 # cs \<and> lacksEnv ''MONGODB_ADMIN_PASSWORD'' (containerEnv c0)"
  then show "jobWork (mongoConfigure deps statusKey client d namespace) = []"
    using mongo_no_job_work by blast
  assume r: "labels d ''rhmap/name'' \<noteq> Some ''data-mongo''
           \<and> FindJobByName client namespace (dcName d @ ''-dataconfig-job'') = Inr None"
  from h r show "\<exists>e. result (mongoConfigure deps statusKey client d namespace) = Return (None, Some e)"
    using mongo_missing_credentials_error(1) by blast
  from h r show "\<exists>msg. Publish statusKey configError msg
                       \<in> set (trace (mongoConfigure deps statusKey client d namespace))"
    using mongo_missing_credentials_error(2) by blast
  assume s: "FindServiceByLabel client namespace [(''rhmap/name'', ''data-mongo'')] = Inr (mongoSvc # rest')"
  from h r s show "result (mongoConfigure deps statusKey client d namespace)
                  = Return (None, Some (errorsNew
                       ''expected to find an admin password but there was non present''))"
    using mongo_missing_credentials(1) by blast
  from h r s show "Publish statusKey configError
                      ''expected to find an admin password but there was non present''
                    \<in> set (trace (mongoConfigure deps statusKey client d namespace))"
    using mongo_missing_credentials(2) by blast
next
  assume h: "FindDeploymentConfigsByLabel client namespace [(''rhmap/name'', templateDataMysql cat)]
        = Inr (mysqlDc # rest1)
      \<and> containers mysqlDc = c1 # cs1 \<and> lacksEnv ''MYSQL_ROOT_PASSWORD'' (containerEnv c1)"
  then show "jobWork (mysqlConfigure cat deps statusKey client d namespace) = []"
    using mysql_no_job_work by blast
  assume r: "labels d ''rhmap/name'' \<noteq> Some (templateDataMysql cat)
           \<and> FindJobByName client namespace (dcName d @ ''-dataconfig-job'') = Inr None"
  from h r show "\<exists>e. result (mysqlConfigure cat deps statusKey client d namespace) = Return (None, Some e)"
    using mysql_missing_credentials_error(1) by blast
  from h r show "\<exists>msg. Publish statusKey configError msg
                       \<in> set (trace (mysqlConfigure cat deps statusKey client d namespace))"
    using mysql_missing_credentials_error(2) by blast
  assume s: "FindServiceByLabel client namespace [(''rhmap/name'', templateDataMysql cat)]
                 = Inr (mysqlSvc # rest1')"
  from h r s show "result (mysqlConfigure cat deps statusKey client d namespace)
                  = Return (None, Some (errorsNew
                       ''expected to find an env var: MYSQL_ROOT_PASSWORD but it was not present''))"
    using mysql_missing_credentials(1) by blast
  from h r s show "Publish statusKey configError
                      ''expected to find an env var: MYSQL_ROOT_PASSWORD but it was not present''
                    \<in> set (trace (mysqlConfigure cat deps statusKey client d namespace))"
    using mysql_missing_credentials(2) by blast
qed

text \<open>The example cluster without admin credentials meets every hypothesis, for both strategies.\<close>

theorem missing_admin_credential_witness:
  "FindDeploymentConfigsByLabel noCredentialsClient ''ns'' [(''rhmap/name'', ''data-mongo'')]
     = Inr (dataDc ''data-mongo'' plainEnv # [])
   \<and> FindDeploymentConfigsByLabel noCredentialsClient ''ns'' [(''rhmap/name'', templateDataMysql exampleCatalog)]
     = Inr (dataDc ''data-mysql'' plainEnv # [])
   \<and> containers (dataDc ''data-mongo'' plainEnv)
     = \<lparr>containerName = ''data-mongo'', containerEnv = plainEnv\<rparr> # []
   \<and> containers (dataDc ''data-mysql'' plainEnv)
     = \<lparr>containerName = ''data-mysql'', containerEnv = plainEnv\<rparr> # []
   \<and> lacksEnv ''MONGODB_ADMIN_PASSWORD'' plainEnv
   \<and> lacksEnv ''MYSQL_ROOT_PASSWORD'' plainEnv
   \<and> labels app1 ''rhmap/name'' \<noteq> Some ''data-mongo''
   \<and> labels app1 ''rhmap/name'' \<noteq> Some (templateDataMysql exampleCatalog)
   \<and> FindJobByName noCredentialsClient ''ns'' (dcName app1 @ ''-dataconfig-job'') = Inr None
   \<and> FindServiceByLabel noCredentialsClient ''ns'' [(''rhmap/name'', ''data-mongo'')]
     = Inr (\<lparr>svcName = ''data-mongo''\<rparr> # [])
   \<and> FindServiceByLabel noCredentialsClient ''ns'' [(''rhmap/name'', templateDataMysql exampleCatalog)]
     = Inr (\<lparr>svcName = ''data-mysql''\<rparr> # [])
   \<and> jobWork (mongoConfigure exampleDeps ''app1:provision'' noCredentialsClient app1 ''ns'') = []
   \<and> result (mongoConfigure exampleDeps ''app1:provision'' noCredentialsClient app1 ''ns'')
     = Return (None, Some (errorsNew ''expected to find an admin password but there was non present''))
   \<and> Publish ''app1:provision'' configError ''expected to find an admin password but there was non present''
     \<in> set (trace (mongoConfigure exampleDeps ''app1:provision'' noCredentialsClient app1 ''ns''))
   \<and> jobWork (mysqlConfigure exampleCatalog exampleDeps ''app1:provision'' noCredentialsClient app1 ''ns'') = []
   \<and> result (mysqlConfigure exampleCatalog exampleDeps ''app1:provision'' noCredentialsClient app1 ''ns'')
     = Return (None, Some (errorsNew
          ''expected to find an env var: MYSQL_ROOT_PASSWORD but it was not present''))
   \<and> Publish ''app1:provision'' configError
        ''expected to find an env var: MYSQL_ROOT_PASSWORD but it was not present''
     \<in> set (trace (mysqlConfigure exampleCatalog exampleDeps ''app1:provision'' noCredentialsClient app1 ''ns''))"
proof -
  have h1: "FindDeploymentConfigsByLabel noCredentialsClient ''ns'' [(''rhmap/name'', ''data-mongo'')]
     = Inr (dataDc ''data-mongo'' plainEnv # [])"
    by (simp add: noCredentialsClient_def stubClient_def matches_def dataDc_def)
  have h2: "FindDeploymentConfigsByLabel noCredentialsClient ''ns''
              [(''rhmap/name'', templateDataMysql exampleCatalog)]
     = Inr (dataDc ''data-mysql'' plainEnv # [])"
    by (simp add: noCredentialsClient_def stubClient_def matches_def dataDc_def exampleCatalog_def)
  have h3: "containers (dataDc ''data-mongo'' plainEnv)
     = \<lparr>containerName = ''data-mongo'', containerEnv = plainEnv\<rparr> # []"
    by (simp add: dataDc_def)
  have h4: "containers (dataDc ''data-mysql'' plainEnv)
     = \<lparr>containerName = ''data-mysql'', containerEnv = plainEnv\<rparr> # []"
    by (simp add: dataDc_def)
  have h5: "lacksEnv ''MONGODB_ADMIN_PASSWORD'' plainEnv" "lacksEnv ''MYSQL_ROOT_PASSWORD'' plainEnv"
    by (simp_all add: lacksEnv_def plainEnv_def)
  have h6: "labels app1 ''rhmap/name'' \<noteq> Some ''data-mongo''"
    "labels app1 ''rhmap/name'' \<noteq> Some (templateDataMysql exampleCatalog)"
    by (simp_all add: app1_def)
  have h7: "FindJobByName noCredentialsClient ''ns'' (dcName app1 @ ''-dataconfig-job'') = Inr None"
    by (simp add: noCredentialsClient_def stubClient_def)
  have h8: "FindServiceByLabel noCredentialsClient ''ns'' [(''rhmap/name'', ''data-mongo'')]
     = Inr (\<lparr>svcName = ''data-mongo''\<rparr> # [])"
    by (simp add: noCredentialsClient_def stubClient_def)
  have h9: "FindServiceByLabel noCredentialsClient ''ns'' [(''rhmap/name'', templateDataMysql exampleCatalog)]
     = Inr (\<lparr>svcName = ''data-mysql''\<rparr> # [])"
    by (simp add: noCredentialsClient_def stubClient_def exampleCatalog_def)
  show ?thesis
    using h1 h2 h3 h4 h5 h6 h7 h8 h9
      missing_admin_credential [of noCredentialsClient "''ns''" "dataDc ''data-mongo'' plainEnv" "[]"
        "\<lparr>containerName = ''data-mongo'', containerEnv = plainEnv\<rparr>" "[]"
        exampleDeps "''app1:provision''" app1 "\<lparr>svcName = ''data-mongo''\<rparr>" "[]"
        exampleCatalog "dataDc ''data-mysql'' plainEnv" "[]"
        "\<lparr>containerName = ''data-mysql'', containerEnv = plainEnv\<rparr>" "[]"
        "\<lparr>svcName = ''data-mysql''\<rparr>" "[]"]
    by simp
qed

text \<open>
  Without a data service the outcome is an error and "failed" all the same: here the
  client finds the data descriptors, without credentials, and no service.
\<close>

lemma missing_admin_credential_no_service:
  "result (mongoConfigure exampleDeps ''app1:provision'' noServiceClient app1 ''ns'')
     = Return (None, Some (Error ''no service for data found. Cannot continue''))
   \<and> publishedStatuses (trace (mongoConfigure exampleDeps ''app1:provision'' noServiceClient app1 ''ns''))
     = [''in progress'', ''failed'']
   \<and> result (mysqlConfigure exampleCatalog exampleDeps ''app1:provision'' noServiceClient app1 ''ns'')
     = Return (None, Some (Error ''no service for data found. Cannot continue''))
   \<and> publishedStatuses (trace (mysqlConfigure exampleCatalog exampleDeps ''app1:provision'' noServiceClient app1 ''ns''))
     = [''in progress'', ''failed'']"
  by (simp add: mongoConfigure_def mongoLocate_def mysqlConfigure_def fixture_defs errorsNew_def
        statusUpdate_def configInProgress_def configError_def)

text \<open>
  The two hypotheses that remain are needed: without admin credentials, a failing job
  lookup and a target that is the strategy's own descriptor both end in a nil error.
\<close>

lemma missing_admin_credential_other_exits:
  "result (mongoConfigure exampleDeps ''app1:provision'' lookupFailsNoCredentialsClient app1 ''ns'')
     = Return (Some app1, None)
   \<and> result (mysqlConfigure exampleCatalog exampleDeps ''app1:provision'' lookupFailsNoCredentialsClient app1 ''ns'')
     = Return (Some app1, None)
   \<and> result (mongoConfigure exampleDeps ''app1:provision'' noCredentialsClient (dataDc ''data-mongo'' plainEnv) ''ns'')
     = Return (Some (dataDc ''data-mongo'' plainEnv), None)
   \<and> result (mysqlConfigure exampleCatalog exampleDeps ''app1:provision'' noCredentialsClient
                (dataDc ''data-mysql'' plainEnv) ''ns'')
     = Return (Some (dataDc ''data-mysql'' plainEnv), None)"
  by (simp add: mongoConfigure_def mysqlConfigure_def fixture_defs)

text \<open>
  The claim as stated fails: in the example cluster where the data descriptors carry no
  admin credentials and the provisioning job exists already, the relational-database
  Configurer finds the data descriptor, meets the existing job, publishes "complete" and
  returns a nil error.
\<close>

theorem missing_admin_credential_counterexample:
  "FindDeploymentConfigsByLabel existingJobNoCredentialsClient ''ns'' [(''rhmap/name'', ''data-mysql'')]
     = Inr [dataDc ''data-mysql'' plainEnv]
   \<and> containers (dataDc ''data-mysql'' plainEnv) = [\<lparr>containerName = ''data-mysql'', containerEnv = plainEnv\<rparr>]
   \<and> lacksEnv ''MYSQL_ROOT_PASSWORD'' plainEnv
   \<and> result (mysqlConfigure exampleCatalog exampleDeps ''app1:provision'' existingJobNoCredentialsClient app1 ''ns'')
       = Return (Some app1, None)
   \<and> trace (mysqlConfigure exampleCatalog exampleDeps ''app1:provision'' existingJobNoCredentialsClient app1 ''ns'')
       = [Publish ''app1:provision'' ''in progress'' ''starting configuration of data service for app1'',
          CallFindDeploymentConfigsByLabel ''ns'' [(''rhmap/name'', ''data-mysql'')],
          CallFindJobByName ''ns'' ''app1-dataconfig-job'',
          Publish ''app1:provision'' ''complete''
            ''configuration job app1-dataconfig-job already exists. No need to run again '']"
  by (simp add: mysqlConfigure_def fixture_defs lacksEnv_def statusUpdate_def configInProgress_def)

section \<open>A Configurer leaves its own descriptor alone\<close>

text \<open>
  Claim C8. For every Configurer strategy (cache, mongo, mysql), if the label
  \<open>rhmap/name\<close> of the target descriptor equals the strategy's own service kind,
  \<open>Configure\<close> returns the descriptor with all fields unchanged and a nil error, and never
  reaches its job-building or job-submission path. The kinds are those the code compares
  with: "cache", "data-mongo", and the constant \<open>templateDataMysql\<close>.
\<close>

theorem own_descriptor_is_returned_unchanged:
  "(labels d1 ''rhmap/name'' = Some ''cache'' \<longrightarrow>
      result (cacheConfigure statusKey client d1 namespace) = Return (Some d1, None)
      \<and> target (cacheConfigure statusKey client d1 namespace) = d1
      \<and> jobWork (cacheConfigure statusKey client d1 namespace) = [])
   \<and> (labels d2 ''rhmap/name'' = Some ''data-mongo'' \<longrightarrow>
      result (mongoConfigure deps statusKey client d2 namespace) = Return (Some d2, None)
      \<and> target (mongoConfigure deps statusKey client d2 namespace) = d2
      \<and> jobWork (mongoConfigure deps statusKey client d2 namespace) = [])
   \<and> (labels d3 ''rhmap/name'' = Some (templateDataMysql cat) \<longrightarrow>
      result (mysqlConfigure cat deps statusKey client d3 namespace) = Return (Some d3, None)
      \<and> target (mysqlConfigure cat deps statusKey client d3 namespace) = d3
      \<and> jobWork (mysqlConfigure cat deps statusKey client d3 namespace) = [])"
  by (simp add: cacheConfigure_def mongoConfigure_def mysqlConfigure_def jobWork_def)

theorem own_descriptor_is_returned_unchanged_witness:
  "labels (dataDc ''cache'' plainEnv) ''rhmap/name'' = Some ''cache''
   \<and> labels (dataDc ''data-mongo'' mongoEnv) ''rhmap/name'' = Some ''data-mongo''
   \<and> labels (dataDc ''data-mysql'' mysqlEnv) ''rhmap/name'' = Some (templateDataMysql exampleCatalog)
   \<and> result (cacheConfigure ''app1:provision'' submitFailsClient (dataDc ''cache'' plainEnv) ''ns'')
     = Return (Some (dataDc ''cache'' plainEnv), None)
   \<and> target (cacheConfigure ''app1:provision'' submitFailsClient (dataDc ''cache'' plainEnv) ''ns'')
     = dataDc ''cache'' plainEnv
   \<and> result (mongoConfigure exampleDeps ''app1:provision'' submitFailsClient (dataDc ''data-mongo'' mongoEnv) ''ns'')
     = Return (Some (dataDc ''data-mongo'' mongoEnv), None)
   \<and> target (mongoConfigure exampleDeps ''app1:provision'' submitFailsClient (dataDc ''data-mongo'' mongoEnv) ''ns'')
     = dataDc ''data-mongo'' mongoEnv
   \<and> result (mysqlConfigure exampleCatalog exampleDeps ''app1:provision'' submitFailsClient
               (dataDc ''data-mysql'' mysqlEnv) ''ns'')
     = Return (Some (dataDc ''data-mysql'' mysqlEnv), None)
   \<and> jobWork (mysqlConfigure exampleCatalog exampleDeps ''app1:provision'' submitFailsClient
               (dataDc ''data-mysql'' mysqlEnv) ''ns'') = []"
proof -
  have h1: "labels (dataDc ''cache'' plainEnv) ''rhmap/name'' = Some ''cache''"
    by (simp add: dataDc_def)
  have h2: "labels (dataDc ''data-mongo'' mongoEnv) ''rhmap/name'' = Some ''data-mongo''"
    by (simp add: dataDc_def)
  have h3: "labels (dataDc ''data-mysql'' mysqlEnv) ''rhmap/name'' = Some (templateDataMysql exampleCatalog)"
    by (simp add: dataDc_def exampleCatalog_def)
  show ?thesis
    using h1 h2 h3
      own_descriptor_is_returned_unchanged [of "dataDc ''cache'' plainEnv" "''app1:provision''"
        submitFailsClient "''ns''" "dataDc ''data-mongo'' mongoEnv" exampleDeps
        "dataDc ''data-mysql'' mysqlEnv" exampleCatalog]
    by simp
qed

section \<open>A failed job submission\<close>

text \<open>
  Claim C9. For both database strategies, a failing \<open>CreateJobToWatch\<close> results in a
  terminal failure status being published and a non-nil error being returned to the
  caller of \<open>Configure\<close>.

  The document-database Configurer does both. The relational-database Configurer calls
  \<open>CreateJobToWatch\<close> inside the goroutine it starts: in the example cluster where the
  submission fails, the goroutine publishes "failed", and \<open>Configure\<close> has returned the
  descriptor with a nil error.
\<close>

theorem mysql_submission_failure_is_not_returned:
  "CreateJobToWatch submitFailsClient (Job ''job from data-mysql-job'') ''ns'' = Inl (Error ''forbidden'')
   \<and> CallCreateJobToWatch (Job ''job from data-mysql-job'') ''ns''
       \<in> set (spawned (mysqlConfigure exampleCatalog exampleDeps ''app1:provision'' submitFailsClient app1 ''ns''))
   \<and> Publish ''app1:provision'' ''failed'' ''failed to CreateJobToWatch forbidden''
       \<in> set (spawned (mysqlConfigure exampleCatalog exampleDeps ''app1:provision'' submitFailsClient app1 ''ns''))
   \<and> result (mysqlConfigure exampleCatalog exampleDeps ''app1:provision'' submitFailsClient app1 ''ns'')
       = Return (Some (target (mysqlConfigure exampleCatalog exampleDeps ''app1:provision''
                                 submitFailsClient app1 ''ns'')), None)
   \<and> result (mongoConfigure exampleDeps ''app1:provision'' submitFailsClient app1 ''ns'')
       = Return (None, Some (Error ''forbidden''))
   \<and> Publish ''app1:provision'' ''failed'' ''failed to CreateJobToWatch forbidden''
       \<in> set (trace (mongoConfigure exampleDeps ''app1:provision'' submitFailsClient app1 ''ns''))"
  by (simp add: mysqlConfigure_def mysqlBuildJob_def mysqlSubmitJob_def mysqlJob_def
        mongoConfigure_def mongoLocate_def mongoBuildJob_def mongoSubmitJob_def constructMongoURL_def
        fixture_defs statusUpdate_def configError_def Let_def)

section \<open>A failed job lookup\<close>

text \<open>
  Claim C10. For both database strategies, if the lookup for an existing provisioning job
  (\<open>FindJobByName\<close>) itself fails with an error, \<open>Configure\<close> publishes the status "error"
  and returns the deployment with a nil error: the caller sees success, and no job has
  been submitted.

  As amended, with the hypothesis on the client alone (its answer to \<open>FindJobByName\<close> for
  the job's name is an error): both strategies load no template, decode no job and
  submit no job, in the call and in a goroutine. The document-database strategy returns
  the deployment, unchanged, with a nil error, and publishes "error" with the error's
  message when the target is not its own descriptor. The relational-database strategy
  returns the deployment, unchanged, with a nil error when the target is its own
  descriptor or the data descriptor is found, and publishes "error" with the error's
  message when the target is not its own descriptor and the data descriptor is found.
\<close>

theorem job_lookup_failure:
  "FindJobByName client namespace (dcName d @ ''-dataconfig-job'') = Inl err \<longrightarrow>
     result (mongoConfigure deps statusKey client d namespace) = Return (Some d, None)
     \<and> target (mongoConfigure deps statusKey client d namespace) = d
     \<and> jobWork (mongoConfigure deps statusKey client d namespace) = []
     \<and> jobWork (mysqlConfigure cat deps statusKey client d namespace) = []
     \<and> (labels d ''rhmap/name'' \<noteq> Some ''data-mongo'' \<longrightarrow>
          Publish statusKey ''error'' (''error finding existing Job '' @ errorMsg err)
          \<in> set (trace (mongoConfigure deps statusKey client d namespace)))
     \<and> (labels d ''rhmap/name'' = Some (templateDataMysql cat)
          \<or> FindDeploymentConfigsByLabel client namespace [(''rhmap/name'', templateDataMysql cat)]
               = Inr (dataDc0 # rest) \<longrightarrow>
          result (mysqlConfigure cat deps statusKey client d namespace) = Return (Some d, None)
          \<and> target (mysqlConfigure cat deps statusKey client d namespace) = d)
     \<and> (labels d ''rhmap/name'' \<noteq> Some (templateDataMysql cat)
          \<and> FindDeploymentConfigsByLabel client namespace [(''rhmap/name'', templateDataMysql cat)]
               = Inr (dataDc0 # rest) \<longrightarrow>
          Publish statusKey ''error'' (''error finding existing Job '' @ errorMsg err)
          \<in> set (trace (mysqlConfigure cat deps statusKey client d namespace)))"
proof (intro conjI impI)
  assume a: "FindJobByName client namespace (dcName d @ ''-dataconfig-job'') = Inl err"
  from a show "result (mongoConfigure deps statusKey client d namespace) = Return (Some d, None)"
    by (simp add: mongoConfigure_def)
  from a show "target (mongoConfigure deps statusKey client d namespace) = d"
    by (simp add: mongoConfigure_def)
  from a show "jobWork (mongoConfigure deps statusKey client d namespace) = []"
    by (simp add: mongoConfigure_def jobWork_def)
  from a show "jobWork (mysqlConfigure cat deps statusKey client d namespace) = []"
    by (simp add: mysqlConfigure_def jobWork_def split: sum.splits list.splits)
next
  assume a: "FindJobByName client namespace (dcName d @ ''-dataconfig-job'') = Inl err"
    and n: "labels d ''rhmap/name'' \<noteq> Some ''data-mongo''"
  from a n show "Publish statusKey ''error'' (''error finding existing Job '' @ errorMsg err)
          \<in> set (trace (mongoConfigure deps statusKey client d namespace))"
    by (simp add: mongoConfigure_def statusUpdate_def)
next
  assume a: "FindJobByName client namespace (dcName d @ ''-dataconfig-job'') = Inl err"
    and r: "labels d ''rhmap/name'' = Some (templateDataMysql cat)
          \<or> FindDeploymentConfigsByLabel client namespace [(''rhmap/name'', templateDataMysql cat)]
               = Inr (dataDc0 # rest)"
  from a r show "result (mysqlConfigure cat deps statusKey client d namespace) = Return (Some d, None)"
    by (auto simp: mysqlConfigure_def)
  from a r show "target (mysqlConfigure cat deps statusKey client d namespace) = d"
    by (auto simp: mysqlConfigure_def)
next
  assume a: "FindJobByName client namespace (dcName d @ ''-dataconfig-job'') = Inl err"
    and r: "labels d ''rhmap/name'' \<noteq> Some (templateDataMysql cat)
          \<and> FindDeploymentConfigsByLabel client namespace [(''rhmap/name'', templateDataMysql cat)]
               = Inr (dataDc0 # rest)"
  from a r show "Publish statusKey ''error'' (''error finding existing Job '' @ errorMsg err)
          \<in> set (trace (mysqlConfigure cat deps statusKey client d namespace))"
    by (simp add: mysqlConfigure_def statusUpdate_def)
qed

text \<open>
  The example cluster where the lookup fails: the application is no data descriptor, and
  the data descriptor of the relational database is found.
\<close>

theorem job_lookup_failure_witness:
  "FindJobByName lookupFailsClient ''ns'' (dcName app1 @ ''-dataconfig-job'')
     = Inl (Error ''connection refused'')
   \<and> labels app1 ''rhmap/name'' \<noteq> Some ''data-mongo''
   \<and> labels app1 ''rhmap/name'' \<noteq> Some (templateDataMysql exampleCatalog)
   \<and> FindDeploymentConfigsByLabel lookupFailsClient ''ns'' [(''rhmap/name'', templateDataMysql exampleCatalog)]
     = Inr (dataDc ''data-mysql'' mysqlEnv # [])
   \<and> result (mongoConfigure exampleDeps ''app1:provision'' lookupFailsClient app1 ''ns'')
     = Return (Some app1, None)
   \<and> jobWork (mongoConfigure exampleDeps ''app1:provision'' lookupFailsClient app1 ''ns'') = []
   \<and> Publish ''app1:provision'' ''error'' ''error finding existing Job connection refused''
     \<in> set (trace (mongoConfigure exampleDeps ''app1:provision'' lookupFailsClient app1 ''ns''))
   \<and> result (mysqlConfigure exampleCatalog exampleDeps ''app1:provision'' lookupFailsClient app1 ''ns'')
     = Return (Some app1, None)
   \<and> jobWork (mysqlConfigure exampleCatalog exampleDeps ''app1:provision'' lookupFailsClient app1 ''ns'') = []
   \<and> Publish ''app1:provision'' ''error'' ''error finding existing Job connection refused''
     \<in> set (trace (mysqlConfigure exampleCatalog exampleDeps ''app1:provision'' lookupFailsClient app1 ''ns''))"
proof -
  have f: "FindJobByName lookupFailsClient ''ns'' (dcName app1 @ ''-dataconfig-job'')
     = Inl (Error ''connection refused'')"
    by (simp add: lookupFailsClient_def stubClient_def)
  have o: "labels app1 ''rhmap/name'' \<noteq> Some ''data-mongo''"
    "labels app1 ''rhmap/name'' \<noteq> Some (templateDataMysql exampleCatalog)"
    by (simp_all add: app1_def)
  have dc: "FindDeploymentConfigsByLabel lookupFailsClient ''ns''
              [(''rhmap/name'', templateDataMysql exampleCatalog)]
     = Inr (dataDc ''data-mysql'' mysqlEnv # [])"
    by (simp add: lookupFailsClient_def stubClient_def matches_def dataDc_def exampleCatalog_def)
  show ?thesis
    using f o dc
      job_lookup_failure [of lookupFailsClient "''ns''" app1 "Error ''connection refused''"
        exampleDeps "''app1:provision''" exampleCatalog "dataDc ''data-mysql'' mysqlEnv" "[]"]
    by simp
qed

text \<open>
  The claim as stated fails on two inputs. Where the lookup would fail and no data
  descriptor is deployed, the relational-database Configurer stops before the lookup: it
  returns an error and publishes "failed", not "error". Where the target is the document
  database's own descriptor, the lookup is not made either, and the only statuses
  published are "in progress".
\<close>

theorem job_lookup_failure_counterexample:
  "FindJobByName lookupFailsNoDataClient ''ns'' (dcName app1 @ ''-dataconfig-job'')
     = Inl (Error ''connection refused'')
   \<and> result (mysqlConfigure exampleCatalog exampleDeps ''app1:provision'' lookupFailsNoDataClient app1 ''ns'')
     = Return (None, Some (Error ''no data DeploymentConfig exists. Cannot continue''))
   \<and> publishedStatuses
        (trace (mysqlConfigure exampleCatalog exampleDeps ''app1:provision'' lookupFailsNoDataClient app1 ''ns''))
     = [''in progress'', ''failed'']
   \<and> FindJobByName lookupFailsClient ''ns'' (dcName (dataDc ''data-mongo'' mongoEnv) @ ''-dataconfig-job'')
     = Inl (Error ''connection refused'')
   \<and> publishedStatuses
        (trace (mongoConfigure exampleDeps ''app1:provision'' lookupFailsClient
                  (dataDc ''data-mongo'' mongoEnv) ''ns''))
     = [''in progress'', ''in progress'']"
  by (simp add: mysqlConfigure_def mongoConfigure_def fixture_defs errorsNew_def statusUpdate_def
        configInProgress_def configError_def)

end
